theory Spec2Isabelle
  imports Main "HOL-Library.Sublist"
begin

section \<open>The machine wordpress\_manager.py runs on\<close>

text \<open>
  The script is sequential glue around the file system, the console, the web browser
  and two external executables. Its functions are embedded as functions from a
  \<open>world\<close> (what the script can change) to an \<open>outcome\<close> and the changed world,
  read against an \<open>env\<close> (what the script can only ask for).

  \<^item> \<open>dirs\<close> are the directories that exist, \<open>files\<close> maps the path of every regular
    file to its contents; a path is the string the script passes to the operating
    system, so two spellings of one path are two keys.
  \<^item> \<open>trace\<close> lists, in order, every line written by \<open>print\<close> (without its final
    newline) and every URL handed to \<open>webbrowser.open\<close>.
  \<^item> An exception that leaves a function is the outcome \<open>Raised\<close>, and the world
    beside it is the world at that moment; \<open>sys.exit(n)\<close> is the exception
    \<open>SystemExit n\<close>, as in Python.
\<close>

datatype py_exception =
    SystemExit int
  | CalledProcessError int
  | FileNotFoundError
  | FileExistsError
  | NotADirectoryError
  | IsADirectoryError
  | PermissionError
  | OSError

datatype outcome = Returned | Raised py_exception

datatype event = Print string | BrowserOpen string

record world =
  dirs :: "string set"
  files :: "string \<rightharpoonup> string"
  trace :: "event list"

text \<open>
  What a child process does is not decided by the script: \<open>proc\<close> gives, for an
  argument vector and a working directory, either \<open>NotInvocable\<close> (the executable is
  not on the search path, so the operating system cannot start it) or the exit status
  of the finished process.

  Nor is it decided by the script whether the operating system lets it make a
  directory or open a file: \<open>fault\<close> gives, for each such call, the exception the
  system answers with for a reason the world does not show (the user may not write
  there, the file system is read-only or full, the name is too long), or \<open>None\<close>.

  The remaining fields answer \<open>platform.system()\<close>,
  \<open>ctypes.windll.shell32.IsUserAnAdmin()\<close>, the registry query for
  \<open>DataBasePath\<close> (\<open>Inl\<close> the text of the exception it raised, \<open>Inr\<close> the value)
  and \<open>str\<close> of an exception.
\<close>

datatype proc_result = NotInvocable | Exited int

datatype syscall = Mkdir string | OpenWrite string | OpenAppend string

record env =
  proc :: "string list \<Rightarrow> string option \<Rightarrow> proc_result"
  fault :: "syscall \<Rightarrow> py_exception option"
  platform_system :: string
  is_user_an_admin :: bool
  registry_data_base_path :: "string + string"
  join_inserts_sep :: "string \<Rightarrow> bool"
  exception_text :: "py_exception \<Rightarrow> string"

subsection \<open>Library calls\<close>

definition py_print :: "string \<Rightarrow> world \<Rightarrow> world" where
  "py_print line w = w\<lparr>trace := trace w @ [Print line]\<rparr>"

definition webbrowser_open :: "string \<Rightarrow> world \<Rightarrow> world" where
  "webbrowser_open url w = w\<lparr>trace := trace w @ [BrowserOpen url]\<rparr>"

text \<open>
  \<open>os.path.split\<close> of \<open>posixpath\<close>: the tail is what follows the last slash, the
  head is what precedes it, without its trailing slashes unless it is slashes only.
  \<open>os.path.exists\<close> and \<open>os.path.isdir\<close> are false of the empty path and true of
  the root.
\<close>

definition path_split :: "string \<Rightarrow> string \<times> string" where
  "path_split p =
     (let head = rev (dropWhile (\<lambda>c. c \<noteq> CHR ''/'') (rev p));
          tail = rev (takeWhile (\<lambda>c. c \<noteq> CHR ''/'') (rev p))
      in (if dropWhile (\<lambda>c. c = CHR ''/'') head = [] then head
          else rev (dropWhile (\<lambda>c. c = CHR ''/'') (rev head)),
          tail))"

definition path_isdir :: "world \<Rightarrow> string \<Rightarrow> bool" where
  "path_isdir w p = (p \<noteq> [] \<and> (dropWhile (\<lambda>c. c = CHR ''/'') p = [] \<or> p \<in> dirs w))"

definition path_exists :: "world \<Rightarrow> string \<Rightarrow> bool" where
  "path_exists w p = (path_isdir w p \<or> p \<in> dom (files w))"

text \<open>
  Every call that names a path needs the directory part of the path to be a
  directory; an empty directory part is the current directory. Where it is a regular
  file the system answers \<open>NotADirectoryError\<close>, where it is missing
  \<open>FileNotFoundError\<close>.
\<close>

definition parent_error :: "world \<Rightarrow> string \<Rightarrow> py_exception option" where
  "parent_error w p =
     (if fst (path_split p) = [] \<or> path_isdir w (fst (path_split p)) then None
      else if fst (path_split p) \<in> dom (files w) then Some NotADirectoryError
      else Some FileNotFoundError)"

text \<open>
  \<open>os.mkdir(p)\<close> makes one directory: the empty path is not found, a path that
  exists is refused with \<open>FileExistsError\<close>.
\<close>

definition os_mkdir :: "env \<Rightarrow> string \<Rightarrow> world \<Rightarrow> outcome \<times> world" where
  "os_mkdir e p w =
     (if p = [] then (Raised FileNotFoundError, w)
      else if path_exists w p then (Raised FileExistsError, w)
      else case parent_error w p of
             Some x \<Rightarrow> (Raised x, w)
           | None \<Rightarrow>
               (case fault e (Mkdir p) of
                  Some x \<Rightarrow> (Raised x, w)
                | None \<Rightarrow> (Returned, w\<lparr>dirs := insert p (dirs w)\<rparr>)))"

text \<open>
  \<open>os.makedirs(name, exist_ok=exist_ok)\<close>, as the standard library writes it:
  \<^verbatim>\<open>
  head, tail = path.split(name)
  if not tail:
      head, tail = path.split(head)
  if head and tail and not path.exists(head):
      try:
          makedirs(head, exist_ok=exist_ok)
      except FileExistsError:
          pass
      if tail == curdir:
          return
  try:
      mkdir(name, mode)
  except OSError:
      if not exist_ok or not path.isdir(name):
          raise
  \<close>
  \<open>makedirs_head_tail\<close> is its first three lines, \<open>mkdir_exist_ok\<close> its last five,
  \<open>after_parent\<close> what follows the recursive call. Every exception of the model but
  \<open>SystemExit\<close> and \<open>CalledProcessError\<close> is an \<open>OSError\<close> of Python.
\<close>

definition makedirs_head_tail :: "string \<Rightarrow> string \<times> string" where
  "makedirs_head_tail name =
     (if snd (path_split name) = [] then path_split (fst (path_split name))
      else path_split name)"

definition is_os_error :: "py_exception \<Rightarrow> bool" where
  "is_os_error x = (case x of SystemExit n \<Rightarrow> False | CalledProcessError n \<Rightarrow> False | _ \<Rightarrow> True)"

definition mkdir_exist_ok :: "env \<Rightarrow> string \<Rightarrow> bool \<Rightarrow> world \<Rightarrow> outcome \<times> world" where
  "mkdir_exist_ok e name exist_ok w =
     (case os_mkdir e name w of
        (Returned, w1) \<Rightarrow> (Returned, w1)
      | (Raised x, w1) \<Rightarrow>
          (if is_os_error x \<and> exist_ok \<and> path_isdir w1 name then (Returned, w1)
           else (Raised x, w1)))"

definition after_parent ::
    "env \<Rightarrow> string \<Rightarrow> bool \<Rightarrow> outcome \<times> world \<Rightarrow> outcome \<times> world" where
  "after_parent e name exist_ok r =
     (if fst r = Returned \<or> fst r = Raised FileExistsError then
        (if snd (makedirs_head_tail name) = ''.'' then (Returned, snd r)
         else mkdir_exist_ok e name exist_ok (snd r))
      else r)"

function makedirs :: "env \<Rightarrow> string \<Rightarrow> bool \<Rightarrow> world \<Rightarrow> outcome \<times> world" where
  "makedirs e name exist_ok w =
     (if fst (makedirs_head_tail name) \<noteq> [] \<and> snd (makedirs_head_tail name) \<noteq> [] \<and>
         \<not> path_exists w (fst (makedirs_head_tail name))
      then after_parent e name exist_ok (makedirs e (fst (makedirs_head_tail name)) exist_ok w)
      else mkdir_exist_ok e name exist_ok w)"
  by pat_completeness auto
termination
proof (relation "measure (\<lambda>(e, name, exist_ok, w). length name)")
  show "wf (measure (\<lambda>(e, name, exist_ok, w). length name))" by simp
next
  fix e :: env and name :: string and exist_ok :: bool and w :: world
  have le: "length (fst (path_split p)) + length (snd (path_split p)) \<le> length p" for p
  proof -
    let ?d = "dropWhile (\<lambda>c. c \<noteq> CHR ''/'') (rev p)"
    let ?t = "takeWhile (\<lambda>c. c \<noteq> CHR ''/'') (rev p)"
    have s: "snd (path_split p) = rev ?t"
      unfolding path_split_def Let_def by (rule snd_conv)
    have f: "fst (path_split p) =
               (if dropWhile (\<lambda>c. c = CHR ''/'') (rev ?d) = [] then rev ?d
                else rev (dropWhile (\<lambda>c. c = CHR ''/'') (rev (rev ?d))))"
      unfolding path_split_def Let_def by (rule fst_conv)
    have "length (fst (path_split p)) \<le> length ?d"
    proof (cases "dropWhile (\<lambda>c. c = CHR ''/'') (rev ?d) = []")
      case True
      then have "fst (path_split p) = rev ?d"
        by (simp only: f simp_thms if_True)
      then show ?thesis by (simp only: length_rev order_refl)
    next
      case False
      then have "fst (path_split p) = rev (dropWhile (\<lambda>c. c = CHR ''/'') ?d)"
        by (simp only: f simp_thms if_False rev_rev_ident)
      then show ?thesis
        using length_dropWhile_le [of "\<lambda>c. c = CHR ''/''" ?d] by (simp only: length_rev)
    qed
    moreover have "length (snd (path_split p)) = length ?t"
      by (simp only: s length_rev)
    moreover have "length (?t @ ?d) = length (rev p)"
      by (simp only: takeWhile_dropWhile_id)
    then have "length ?d + length ?t = length p"
      by (simp only: length_append length_rev)
    ultimately show ?thesis by linarith
  qed
  have lt: "length (fst (path_split p)) < length p" if "snd (path_split p) \<noteq> []" for p
  proof -
    from that have "0 < length (snd (path_split p))" by (rule iffD2 [OF length_greater_0_conv])
    with le [of p] show ?thesis by linarith
  qed
  assume "fst (makedirs_head_tail name) \<noteq> [] \<and> snd (makedirs_head_tail name) \<noteq> [] \<and>
          \<not> path_exists w (fst (makedirs_head_tail name))"
  then have t: "snd (makedirs_head_tail name) \<noteq> []" by (rule conjunct1 [OF conjunct2])
  have "length (fst (makedirs_head_tail name)) < length name"
  proof (cases "snd (path_split name) = []")
    case True
    then have h: "makedirs_head_tail name = path_split (fst (path_split name))"
      by (simp add: makedirs_head_tail_def)
    with t have "length (fst (path_split (fst (path_split name)))) < length (fst (path_split name))"
      by (simp add: lt)
    moreover have "length (fst (path_split name)) \<le> length name"
      using le [of name] by linarith
    ultimately show ?thesis by (simp add: h)
  next
    case False
    then have h: "makedirs_head_tail name = path_split name"
      by (simp add: makedirs_head_tail_def)
    with False show ?thesis by (simp add: lt)
  qed
  then show "((e, fst (makedirs_head_tail name), exist_ok, w), (e, name, exist_ok, w))
             \<in> measure (\<lambda>(e, name, exist_ok, w). length name)"
    by simp
qed

declare makedirs.simps [simp del]

text \<open>
  \<open>open(p, "w")\<close> followed by one \<open>write\<close> replaces the contents of \<open>p\<close>;
  \<open>open(p, "a")\<close> followed by one \<open>write\<close> extends them (a file that did not exist
  starts empty). Neither opens the empty path or a directory, and both need the
  directory part of \<open>p\<close>.
\<close>

definition open_error :: "env \<Rightarrow> syscall \<Rightarrow> string \<Rightarrow> world \<Rightarrow> py_exception option" where
  "open_error e call p w =
     (if p = [] then Some FileNotFoundError
      else if path_isdir w p then Some IsADirectoryError
      else case parent_error w p of
             Some x \<Rightarrow> Some x
           | None \<Rightarrow> fault e call)"

definition write_file :: "env \<Rightarrow> string \<Rightarrow> string \<Rightarrow> world \<Rightarrow> outcome \<times> world" where
  "write_file e p s w =
     (case open_error e (OpenWrite p) p w of
        Some x \<Rightarrow> (Raised x, w)
      | None \<Rightarrow> (Returned, w\<lparr>files := (files w)(p \<mapsto> s)\<rparr>))"

definition append_file :: "env \<Rightarrow> string \<Rightarrow> string \<Rightarrow> world \<Rightarrow> outcome \<times> world" where
  "append_file e p s w =
     (case open_error e (OpenAppend p) p w of
        Some x \<Rightarrow> (Raised x, w)
      | None \<Rightarrow>
          (Returned,
           w\<lparr>files := (files w)(p \<mapsto> (case files w p of None \<Rightarrow> s | Some old \<Rightarrow> old @ s))\<rparr>))"

text \<open>
  \<open>subprocess.run(args, cwd=cwd, check=check, stdout=PIPE, stderr=PIPE)\<close>. The child
  cannot be started when its working directory does not exist or its executable is not
  found: both raise \<open>FileNotFoundError\<close> in the caller. Otherwise the child runs to
  its end; with \<open>check=True\<close> a non-zero exit status raises
  \<open>CalledProcessError\<close>, without it the status is only stored in the result.
\<close>

definition subprocess_run ::
    "env \<Rightarrow> string list \<Rightarrow> string option \<Rightarrow> bool \<Rightarrow> world \<Rightarrow> py_exception + int" where
  "subprocess_run e args cwd check w =
     (if (case cwd of None \<Rightarrow> False | Some d \<Rightarrow> d \<notin> dirs w) then Inl FileNotFoundError
      else case proc e args cwd of
             NotInvocable \<Rightarrow> Inl FileNotFoundError
           | Exited rc \<Rightarrow> if check \<and> rc \<noteq> 0 then Inl (CalledProcessError rc) else Inr rc)"

text \<open>
  \<open>shutil.rmtree(p)\<close> raises \<open>FileNotFoundError\<close> when \<open>p\<close> does not exist, and
  otherwise removes \<open>p\<close> with every directory and file below it.
\<close>

definition shutil_rmtree :: "string \<Rightarrow> world \<Rightarrow> py_exception + world" where
  "shutil_rmtree p w =
     (if p \<notin> dirs w then Inl FileNotFoundError
      else Inr (w\<lparr>dirs := {d \<in> dirs w. d \<noteq> p \<and> \<not> prefix (p @ ''/'') d},
                  files := (\<lambda>q. if prefix (p @ ''/'') q then None else files w q)\<rparr>))"

text \<open>
  \<open>os.path.join(data_path, "hosts")\<close> on Windows: the second component has neither a
  drive nor a root, so the result is \<open>data_path\<close>, a backslash where the join inserts
  one, and \<open>hosts\<close>. Whether it inserts one depends on how \<open>data_path\<close> splits into
  drive, root and path, which \<open>join_inserts_sep\<close> answers.
\<close>

definition os_path_join_hosts :: "env \<Rightarrow> string \<Rightarrow> string" where
  "os_path_join_hosts e data_path =
     data_path @ (if join_inserts_sep e data_path then [CHR 0x5C] else []) @ ''hosts''"

text \<open>
  The exit status the operating system sees: 0 after a normal end, the argument of
  \<open>sys.exit\<close>, and 1 after any other uncaught exception (the interpreter prints its
  traceback on the error stream, not through \<open>print\<close>).
\<close>

fun exit_status :: "outcome \<Rightarrow> int" where
  "exit_status Returned = 0"
| "exit_status (Raised (SystemExit n)) = n"
| "exit_status (Raised _) = 1"

section \<open>The script\<close>

subsection \<open>check\_dependencies\<close>

definition check_dependencies :: "env \<Rightarrow> world \<Rightarrow> outcome \<times> world" where
  "check_dependencies e w =
     (case subprocess_run e [''docker'', ''--version''] None True w of
        Inl (CalledProcessError rc) \<Rightarrow>
          (Raised (SystemExit 1),
           py_print ''Docker is not installed. Please install Docker before running this script.'' w)
      | Inl x \<Rightarrow> (Raised x, w)
      | Inr rc \<Rightarrow>
          (case subprocess_run e [''docker-compose'', ''--version''] None True w of
             Inl (CalledProcessError rc) \<Rightarrow>
               (Raised (SystemExit 1),
                py_print ''Docker Compose is not installed. Please install Docker Compose before running this script.'' w)
           | Inl x \<Rightarrow> (Raised x, w)
           | Inr rc \<Rightarrow> (Returned, w)))"

subsection \<open>The two generated texts\<close>

text \<open>
  Both texts are f-strings. The first has no replacement field; in the second
  \<open>{{\<close> and \<open>}}\<close> stand for single braces and \<open>{site_name}\<close> is the only
  replacement field. \<open>CHR 0x5C\<close> is the backslash of \<open>\.php\<close>.
\<close>

definition docker_compose_yml :: string where
  \<open>docker_compose_yml =
     ''version: '3'\<newline>'' @
     ''services:\<newline>'' @
     ''  db:\<newline>'' @
     ''    image: mysql:5.7\<newline>'' @
     ''    restart: always\<newline>'' @
     ''    environment:\<newline>'' @
     ''      MYSQL_DATABASE: wordpress\<newline>'' @
     ''      MYSQL_USER: root\<newline>'' @
     ''      MYSQL_PASSWORD: example\<newline>'' @
     ''      MYSQL_RANDOM_ROOT_PASSWORD: "yes"\<newline>'' @
     ''    volumes:\<newline>'' @
     ''      - db_data:/var/lib/mysql\<newline>'' @
     ''  wordpress:\<newline>'' @
     ''    depends_on:\<newline>'' @
     ''      - db\<newline>'' @
     ''    image: wordpress:latest\<newline>'' @
     ''    restart: always\<newline>'' @
     ''    environment:\<newline>'' @
     ''      WORDPRESS_DB_HOST: db\<newline>'' @
     ''      WORDPRESS_DB_NAME: wordpress\<newline>'' @
     ''      WORDPRESS_DB_USER: root\<newline>'' @
     ''      WORDPRESS_DB_PASSWORD: example\<newline>'' @
     ''    volumes:\<newline>'' @
     ''      - ./wp-content:/var/www/html/wp-content\<newline>'' @
     ''  nginx:\<newline>'' @
     ''    image: nginx:latest\<newline>'' @
     ''    restart: always\<newline>'' @
     ''    ports:\<newline>'' @
     ''      - "80:80"\<newline>'' @
     ''    volumes:\<newline>'' @
     ''      - ./nginx.conf:/etc/nginx/conf.d/default.conf:ro\<newline>'' @
     ''      - ./wp-content:/var/www/html/wp-content\<newline>'' @
     ''volumes:\<newline>'' @
     ''  db_data:\<newline>''\<close>

definition nginx_conf :: "string \<Rightarrow> string" where
  \<open>nginx_conf site_name =
     ''server {\<newline>'' @
     ''    listen 80;\<newline>'' @
     ''    server_name '' @ site_name @ '';\<newline>'' @
     ''    root /var/www/html;\<newline>'' @
     ''    index index.php;\<newline>'' @
     ''\<newline>'' @
     ''    location / {\<newline>'' @
     ''        try_files $uri $uri/ /index.php?$args;\<newline>'' @
     ''    }\<newline>'' @
     ''\<newline>'' @
     ''    location ~ '' @ [CHR 0x5C] @ ''.php$ {\<newline>'' @
     ''        include fastcgi_params;\<newline>'' @
     ''        fastcgi_pass wordpress:9000;\<newline>'' @
     ''        fastcgi_index index.php;\<newline>'' @
     ''        fastcgi_param SCRIPT_FILENAME $document_root$fastcgi_script_name;\<newline>'' @
     ''    }\<newline>'' @
     ''}\<newline>''\<close>

subsection \<open>Host entries\<close>

text \<open>
  On Windows everything after the privilege check stands in a \<open>try\<close> whose handler
  for \<open>Exception\<close> prints the exception and lets the function return; \<open>SystemExit\<close>
  is not an \<open>Exception\<close>. On the other platforms an exception of the append leaves
  the function.
\<close>

definition host_entry :: "string \<Rightarrow> string" where
  "host_entry site_name = ''127.0.0.1 '' @ site_name @ ''\<newline>''"

definition add_host_entry_windows :: "env \<Rightarrow> string \<Rightarrow> world \<Rightarrow> outcome \<times> world" where
  "add_host_entry_windows e site_name w =
     (if \<not> is_user_an_admin e then
        (Raised (SystemExit 1),
         py_print ''Error: The script needs to be run with administrator privileges to modify the hosts entry.'' w)
      else case registry_data_base_path e of
             Inl msg \<Rightarrow> (Returned, py_print (''Error: '' @ msg) w)
           | Inr data_path \<Rightarrow>
               (case append_file e (os_path_join_hosts e data_path) (host_entry site_name) w of
                  (Returned, w1) \<Rightarrow> (Returned, py_print ''Hosts entry added successfully.'' w1)
                | (Raised (SystemExit n), w1) \<Rightarrow> (Raised (SystemExit n), w1)
                | (Raised x, w1) \<Rightarrow> (Returned, py_print (''Error: '' @ exception_text e x) w1)))"

definition add_host_entry_unix :: "env \<Rightarrow> string \<Rightarrow> world \<Rightarrow> outcome \<times> world" where
  "add_host_entry_unix e site_name w = append_file e ''/etc/hosts'' (host_entry site_name) w"

subsection \<open>create\_wordpress\_site\<close>

text \<open>
  \<open>site_files\<close> is the first part of \<open>create_wordpress_site\<close>: the directory and
  the two writes, in the order of the source; an exception of one of them leaves the
  function. The function goes on with the host entry of the platform, and prints its
  messages and opens the browser only when that returned.
\<close>

definition site_files :: "env \<Rightarrow> string \<Rightarrow> world \<Rightarrow> outcome \<times> world" where
  "site_files e site_name w =
     (case makedirs e site_name True w of
        (Raised x, w1) \<Rightarrow> (Raised x, w1)
      | (Returned, w1) \<Rightarrow>
          (case write_file e (site_name @ ''/docker-compose.yml'') docker_compose_yml w1 of
             (Raised x, w2) \<Rightarrow> (Raised x, w2)
           | (Returned, w2) \<Rightarrow>
               write_file e (site_name @ ''/nginx.conf'') (nginx_conf site_name) w2))"

definition create_wordpress_site :: "env \<Rightarrow> string \<Rightarrow> world \<Rightarrow> outcome \<times> world" where
  "create_wordpress_site e site_name w =
     (case site_files e site_name w of
        (Raised x, w1) \<Rightarrow> (Raised x, w1)
      | (Returned, w1) \<Rightarrow>
          (case (if platform_system e = ''Windows''
                 then add_host_entry_windows e site_name w1
                 else add_host_entry_unix e site_name w1) of
             (Raised x, w') \<Rightarrow> (Raised x, w')
           | (Returned, w') \<Rightarrow>
               (Returned,
                webbrowser_open (''http://'' @ site_name)
                  (py_print ''Opening the site in your default browser...''
                    (py_print ''Please wait for a moment while the site is being set up...''
                      (py_print (''WordPress site '' @ [CHR 0x27] @ site_name @ [CHR 0x27] @
                                 '' with a LEMP stack created successfully!'') w'))))))"

subsection \<open>enable, disable, delete\<close>

definition enable_wordpress_site :: "env \<Rightarrow> string \<Rightarrow> world \<Rightarrow> outcome \<times> world" where
  "enable_wordpress_site e site_name w =
     (case subprocess_run e [''docker-compose'', ''up'', ''-d''] (Some site_name) False w of
        Inl x \<Rightarrow> (Raised x, w)
      | Inr rc \<Rightarrow>
          (Returned,
           py_print (''WordPress site '' @ [CHR 0x27] @ site_name @ [CHR 0x27] @
                     '' is now enabled and running!'') w))"

definition disable_wordpress_site :: "env \<Rightarrow> string \<Rightarrow> world \<Rightarrow> outcome \<times> world" where
  "disable_wordpress_site e site_name w =
     (case subprocess_run e [''docker-compose'', ''down''] (Some site_name) False w of
        Inl x \<Rightarrow> (Raised x, w)
      | Inr rc \<Rightarrow>
          (Returned,
           py_print (''WordPress site '' @ [CHR 0x27] @ site_name @ [CHR 0x27] @
                     '' is now disabled and stopped!'') w))"

definition delete_wordpress_site :: "env \<Rightarrow> string \<Rightarrow> world \<Rightarrow> outcome \<times> world" where
  "delete_wordpress_site e site_name w =
     (case subprocess_run e [''docker-compose'', ''down''] (Some site_name) False w of
        Inl x \<Rightarrow> (Raised x, w)
      | Inr rc \<Rightarrow>
          (case shutil_rmtree site_name w of
             Inl FileNotFoundError \<Rightarrow>
               (Returned,
                py_print (''WordPress site '' @ [CHR 0x27] @ site_name @ [CHR 0x27] @
                          '' does not exist.'') w)
           | Inl x \<Rightarrow> (Raised x, w)
           | Inr w' \<Rightarrow>
               (Returned,
                py_print (''WordPress site '' @ [CHR 0x27] @ site_name @ [CHR 0x27] @
                          '' is deleted successfully!'') w')))"

subsection \<open>The command line\<close>

text \<open>
  \<open>main\<close> is the block under \<open>if __name__ == "__main__"\<close>, applied to the two
  positional arguments. \<open>argparse\<close> refuses an action outside \<open>choices\<close> with exit
  status 2 before the dispatch is reached.
\<close>

definition main :: "env \<Rightarrow> string \<Rightarrow> string \<Rightarrow> world \<Rightarrow> outcome \<times> world" where
  "main e site_name action w =
     (if action \<notin> set [''create'', ''enable'', ''disable'', ''delete''] then (Raised (SystemExit 2), w)
      else if action = ''create'' then
        (case check_dependencies e w of
           (Raised x, w1) \<Rightarrow> (Raised x, w1)
         | (Returned, w1) \<Rightarrow>
             (case create_wordpress_site e site_name w1 of
                (Raised x, w2) \<Rightarrow> (Raised x, w2)
              | (Returned, w2) \<Rightarrow>
                  (Returned,
                   webbrowser_open (''http://'' @ site_name)
                     (py_print ''Opening the site in your default browser...''
                       (py_print ''Please wait for a moment while the site is being set up...'' w2)))))
      else if action = ''enable'' then enable_wordpress_site e site_name w
      else if action = ''disable'' then disable_wordpress_site e site_name w
      else if action = ''delete'' then delete_wordpress_site e site_name w
      else (Returned,
            py_print (''Invalid action. Please use '' @ [CHR 0x27] @ ''create'' @ [CHR 0x27] @ '', '' @
                      [CHR 0x27] @ ''enable'' @ [CHR 0x27] @ '', '' @ [CHR 0x27] @ ''disable'' @
                      [CHR 0x27] @ '', or '' @ [CHR 0x27] @ ''delete'' @ [CHR 0x27] @
                      '' as the action.'') w))"

subsection \<open>Machines to run the script on\<close>

text \<open>
  A Linux machine with both executables installed and a user the system refuses
  nothing, one where neither executable is installed, one where they are installed and
  \<open>docker-compose\<close> ends with status 1 except for its version query, and one whose
  user may not write the hosts file. A file system with nothing in it, one holding
  only the directory \<open>foo\<close>, one holding \<open>/etc\<close> with its hosts file, and one
  that holds besides the directory \<open>foo\<close> with an \<open>nginx.conf\<close> of an earlier
  day.
\<close>

definition linux_env :: env where
  "linux_env = \<lparr>proc = (\<lambda>args cwd. Exited 0), fault = (\<lambda>call. None),
                 platform_system = ''Linux'', is_user_an_admin = False,
                 registry_data_base_path = Inl [], join_inserts_sep = (\<lambda>p. True),
                 exception_text = (\<lambda>x. [])\<rparr>"

definition bare_env :: env where
  "bare_env = linux_env\<lparr>proc := (\<lambda>args cwd. NotInvocable)\<rparr>"

definition failing_env :: env where
  "failing_env =
     linux_env\<lparr>proc := (\<lambda>args cwd. if args = [''docker-compose'', ''--version''] then Exited 0
                                    else if take 1 args = [''docker-compose''] then Exited 1 else Exited 0)\<rparr>"

definition unprivileged_env :: env where
  "unprivileged_env =
     linux_env\<lparr>fault := (\<lambda>call. if call = OpenAppend ''/etc/hosts'' then Some PermissionError
                                 else None)\<rparr>"

definition empty_world :: world where
  "empty_world = \<lparr>dirs = {}, files = Map.empty, trace = []\<rparr>"

definition foo_world :: world where
  "foo_world = \<lparr>dirs = {''foo''}, files = Map.empty, trace = []\<rparr>"

definition linux_world :: world where
  "linux_world = \<lparr>dirs = {''/etc''},
                   files = [''/etc/hosts'' \<mapsto> ''127.0.0.1 localhost\<newline>''], trace = []\<rparr>"

definition stale_world :: world where
  "stale_world = \<lparr>dirs = {''/etc'', ''foo''},
                   files = [''/etc/hosts'' \<mapsto> ''127.0.0.1 localhost\<newline>'',
                            ''foo/nginx.conf'' \<mapsto> ''old''],
                   trace = []\<rparr>"

subsection \<open>Names for what the theorems speak of\<close>

text \<open>
  The PHP location block of the proxy configuration, the three messages of a finished
  \<open>create\<close> as the source prints them, and the text of a file, empty when the file
  does not exist. \<open>add_host_entry\<close> is the branch on the platform in
  \<open>create_wordpress_site\<close>; \<open>only_more_dirs w w'\<close> says that \<open>w'\<close> differs from
  \<open>w\<close> by more directories at most.
\<close>

definition php_location_block :: string where
  "php_location_block =
     ''    location ~ '' @ [CHR 0x5C] @ ''.php$ {\<newline>'' @
     ''        include fastcgi_params;\<newline>'' @
     ''        fastcgi_pass wordpress:9000;\<newline>'' @
     ''        fastcgi_index index.php;\<newline>'' @
     ''        fastcgi_param SCRIPT_FILENAME $document_root$fastcgi_script_name;\<newline>'' @
     ''    }\<newline>''"

definition created_message :: "string \<Rightarrow> string" where
  "created_message site_name =
     ''WordPress site '' @ [CHR 0x27] @ site_name @ [CHR 0x27] @
     '' with a LEMP stack created successfully!''"

definition wait_message :: string where
  "wait_message = ''Please wait for a moment while the site is being set up...''"

definition opening_message :: string where
  "opening_message = ''Opening the site in your default browser...''"

definition file_text :: "string \<Rightarrow> world \<Rightarrow> string" where
  "file_text p w = (case files w p of None \<Rightarrow> [] | Some t \<Rightarrow> t)"

definition add_host_entry :: "env \<Rightarrow> string \<Rightarrow> world \<Rightarrow> outcome \<times> world" where
  "add_host_entry e site_name w =
     (if platform_system e = ''Windows'' then add_host_entry_windows e site_name w
      else add_host_entry_unix e site_name w)"

definition only_more_dirs :: "world \<Rightarrow> world \<Rightarrow> bool" where
  "only_more_dirs w w' = (files w' = files w \<and> trace w' = trace w \<and> dirs w \<subseteq> dirs w')"

section \<open>Effects of the library calls\<close>

lemma dirs_py_print [simp]: "dirs (py_print l w) = dirs w"
  by (simp add: py_print_def)

lemma files_py_print [simp]: "files (py_print l w) = files w"
  by (simp add: py_print_def)

lemma trace_py_print [simp]: "trace (py_print l w) = trace w @ [Print l]"
  by (simp add: py_print_def)

lemma dirs_webbrowser_open [simp]: "dirs (webbrowser_open u w) = dirs w"
  by (simp add: webbrowser_open_def)

lemma files_webbrowser_open [simp]: "files (webbrowser_open u w) = files w"
  by (simp add: webbrowser_open_def)

lemma trace_webbrowser_open [simp]: "trace (webbrowser_open u w) = trace w @ [BrowserOpen u]"
  by (simp add: webbrowser_open_def)

text \<open>Making directories changes nothing but \<open>dirs\<close>, and only adds to it.\<close>

lemma only_more_dirs_refl [simp]: "only_more_dirs w w"
  by (simp add: only_more_dirs_def)

lemma only_more_dirs_trans: "only_more_dirs w w1 \<Longrightarrow> only_more_dirs w1 w2 \<Longrightarrow> only_more_dirs w w2"
  by (auto simp: only_more_dirs_def)

lemma os_mkdir_only_more_dirs: "only_more_dirs w (snd (os_mkdir e p w))"
  by (auto simp: os_mkdir_def only_more_dirs_def split: option.splits)

lemma mkdir_exist_ok_only_more_dirs: "only_more_dirs w (snd (mkdir_exist_ok e p x w))"
proof -
  obtain r w1 where m: "os_mkdir e p w = (r, w1)" by (cases "os_mkdir e p w")
  with os_mkdir_only_more_dirs [of w e p] have "only_more_dirs w w1" by simp
  then show ?thesis
    by (cases r) (simp_all add: mkdir_exist_ok_def m)
qed

lemma after_parent_only_more_dirs:
  "only_more_dirs w (snd r) \<Longrightarrow> only_more_dirs w (snd (after_parent e n x r))"
  using mkdir_exist_ok_only_more_dirs [of "snd r" e n x]
  by (auto simp: after_parent_def intro: only_more_dirs_trans)

lemma makedirs_only_more_dirs: "only_more_dirs w (snd (makedirs e n x w))"
proof (induction e n x w rule: makedirs.induct)
  case (1 e name exist_ok w)
  show ?case
  proof (cases "fst (makedirs_head_tail name) \<noteq> [] \<and> snd (makedirs_head_tail name) \<noteq> [] \<and>
                \<not> path_exists w (fst (makedirs_head_tail name))")
    case True
    then have "makedirs e name exist_ok w =
        after_parent e name exist_ok (makedirs e (fst (makedirs_head_tail name)) exist_ok w)"
      by (subst makedirs.simps) simp
    with "1" [OF True] show ?thesis
      by (simp add: after_parent_only_more_dirs)
  next
    case False
    then have "makedirs e name exist_ok w = mkdir_exist_ok e name exist_ok w"
      by (subst makedirs.simps) auto
    then show ?thesis by (simp add: mkdir_exist_ok_only_more_dirs)
  qed
qed

lemma makedirs_files [simp]: "files (snd (makedirs e n x w)) = files w"
  using makedirs_only_more_dirs [of w e n x] by (simp add: only_more_dirs_def)

lemma makedirs_trace [simp]: "trace (snd (makedirs e n x w)) = trace w"
  using makedirs_only_more_dirs [of w e n x] by (simp add: only_more_dirs_def)


text \<open>Writing and appending: the world after either outcome.\<close>

lemma write_file_Returned:
  "write_file e p s w = (Returned, w') \<Longrightarrow>
   w' = w\<lparr>files := (files w)(p \<mapsto> s)\<rparr> \<and> open_error e (OpenWrite p) p w = None"
  by (auto simp: write_file_def split: option.splits)

lemma write_file_Raised: "write_file e p s w = (Raised x, w') \<Longrightarrow> w' = w"
  by (auto simp: write_file_def split: option.splits)

lemma write_file_open: 
  "open_error e (OpenWrite p) p w = None \<Longrightarrow>
   write_file e p s w = (Returned, w\<lparr>files := (files w)(p \<mapsto> s)\<rparr>)"
  by (simp add: write_file_def)

lemma append_file_Returned:
  "append_file e p s w = (Returned, w') \<Longrightarrow>
   w' = w\<lparr>files := (files w)(p \<mapsto> (case files w p of None \<Rightarrow> s | Some old \<Rightarrow> old @ s))\<rparr> \<and>
   open_error e (OpenAppend p) p w = None"
  by (auto simp: append_file_def split: option.splits)

lemma append_file_Raised:
  "append_file e p s w = (Raised x, w') \<Longrightarrow> w' = w \<and> open_error e (OpenAppend p) p w = Some x"
  by (auto simp: append_file_def split: option.splits)

lemma append_file_open:
  "open_error e (OpenAppend p) p w = None \<Longrightarrow>
   append_file e p s w =
     (Returned, w\<lparr>files := (files w)(p \<mapsto> (case files w p of None \<Rightarrow> s | Some old \<Rightarrow> old @ s))\<rparr>)"
  by (simp add: append_file_def)

text \<open>Whether a file can be opened depends on the directories and the machine only.\<close>

lemma open_error_None_dirs:
  "open_error e call p w = None \<Longrightarrow> dirs w' = dirs w \<Longrightarrow> open_error e call p w' = None"
  by (auto simp: open_error_def parent_error_def path_isdir_def split: if_splits option.splits)

lemma open_error_SystemExit_dirs:
  "open_error e call p w' = Some (SystemExit k) \<Longrightarrow> dirs w' = dirs w \<Longrightarrow>
   open_error e call p w = Some (SystemExit k)"
  by (auto simp: open_error_def parent_error_def path_isdir_def split: if_splits option.splits)

section \<open>Plain names\<close>

text \<open>A plain name is not empty and has no slash: its directory part is empty.\<close>

lemma path_split_plain:
  assumes "CHR ''/'' \<notin> set s"
  shows "path_split s = ([], s)"
proof -
  have a: "\<forall>c\<in>set (rev s). c \<noteq> CHR ''/''" using assms by auto
  have d: "dropWhile (\<lambda>c. c \<noteq> CHR ''/'') (rev s) = []"
    using a by (simp only: dropWhile_eq_Nil_conv)
  have t: "takeWhile (\<lambda>c. c \<noteq> CHR ''/'') (rev s) = rev s"
    using a by (simp only: takeWhile_eq_all_conv)
  show ?thesis
    unfolding path_split_def Let_def d t by simp
qed

lemma path_split_in_plain:
  assumes "s \<noteq> []" "CHR ''/'' \<notin> set s" "CHR ''/'' \<notin> set t"
  shows "path_split (s @ CHR ''/'' # t) = (s, t)"
proof -
  have r: "rev (s @ CHR ''/'' # t) = rev t @ CHR ''/'' # rev s" by simp
  have a: "\<forall>c\<in>set (rev t). c \<noteq> CHR ''/''" using assms(3) by auto
  have d: "dropWhile (\<lambda>c. c \<noteq> CHR ''/'') (rev t @ CHR ''/'' # rev s) = CHR ''/'' # rev s"
    using a by (simp add: dropWhile_append3)
  have "takeWhile (\<lambda>c. c \<noteq> CHR ''/'') (rev t @ CHR ''/'' # rev s) =
          rev t @ takeWhile (\<lambda>c. c \<noteq> CHR ''/'') (CHR ''/'' # rev s)"
    by (rule takeWhile_append2) (use a in blast)
  then have t: "takeWhile (\<lambda>c. c \<noteq> CHR ''/'') (rev t @ CHR ''/'' # rev s) = rev t"
    by simp
  obtain c s' where s: "s = c # s'" using assms(1) by (cases s) auto
  with assms(2) have c: "c \<noteq> CHR ''/''" by auto
  have h: "dropWhile (\<lambda>c. c = CHR ''/'') (rev (CHR ''/'' # rev s)) \<noteq> []"
    using c by (simp add: s)
  have "last s \<noteq> CHR ''/''" using assms(1,2) last_in_set by metis
  then have "hd (rev s) \<noteq> CHR ''/''" using assms(1) by (simp add: hd_rev)
  moreover have "rev s \<noteq> []" using assms(1) by simp
  ultimately have k: "dropWhile (\<lambda>c. c = CHR ''/'') (rev s) = rev s"
    by (cases "rev s") auto
  show ?thesis
    unfolding path_split_def Let_def r d t using h k by simp
qed

lemma plain_not_slashes:
  assumes "s \<noteq> []" "CHR ''/'' \<notin> set s"
  shows "dropWhile (\<lambda>c. c = CHR ''/'') s \<noteq> []"
  using assms by (cases s) auto

lemma path_isdir_plain:
  "s \<noteq> [] \<Longrightarrow> CHR ''/'' \<notin> set s \<Longrightarrow> path_isdir w s = (s \<in> dirs w)"
  using plain_not_slashes [of s] by (auto simp: path_isdir_def)

lemma makedirs_plain:
  assumes "CHR ''/'' \<notin> set s"
  shows "makedirs e s x w = mkdir_exist_ok e s x w"
proof -
  have "path_split [] = ([], [])" by (rule path_split_plain) simp
  then have "fst (makedirs_head_tail s) = []"
    by (simp add: makedirs_head_tail_def path_split_plain [OF assms])
  then show ?thesis by (subst makedirs.simps) simp
qed

lemma makedirs_plain_existing:
  assumes "s \<noteq> []" "CHR ''/'' \<notin> set s" "s \<in> dirs w"
  shows "makedirs e s True w = (Returned, w)" "makedirs e s False w = (Raised FileExistsError, w)"
  using assms
  by (simp_all add: makedirs_plain mkdir_exist_ok_def os_mkdir_def path_exists_def path_isdir_plain
        is_os_error_def)

lemma makedirs_plain_new:
  assumes "s \<noteq> []" "CHR ''/'' \<notin> set s" "s \<notin> dirs w" "s \<notin> dom (files w)"
    "fault e (Mkdir s) = None"
  shows "makedirs e s x w = (Returned, w\<lparr>dirs := insert s (dirs w)\<rparr>)"
  using assms
  by (simp add: makedirs_plain mkdir_exist_ok_def os_mkdir_def path_exists_def path_isdir_plain
        parent_error_def path_split_plain)

lemma open_error_in_plain:
  assumes "s \<noteq> []" "CHR ''/'' \<notin> set s" "CHR ''/'' \<notin> set t"
  shows "open_error e call (s @ CHR ''/'' # t) w =
           (if s @ CHR ''/'' # t \<in> dirs w then Some IsADirectoryError
            else if s \<in> dirs w then fault e call
            else if s \<in> dom (files w) then Some NotADirectoryError
            else Some FileNotFoundError)"
proof -
  have n: "path_isdir w (s @ CHR ''/'' # t) = (s @ CHR ''/'' # t \<in> dirs w)"
    using assms(1,2) by (cases s) (auto simp: path_isdir_def)
  show ?thesis
    using assms
    by (simp add: open_error_def parent_error_def path_split_in_plain path_isdir_plain n)
qed

section \<open>The directory and the two files\<close>

lemma compose_not_nginx: "s @ ''/docker-compose.yml'' \<noteq> s @ ''/nginx.conf''"
  by simp

lemma site_files_cases:
  obtains (no_dir) x w1 where
      "makedirs e s True w = (Raised x, w1)" "site_files e s w = (Raised x, w1)"
  | (no_compose) x w1 where
      "makedirs e s True w = (Returned, w1)"
      "open_error e (OpenWrite (s @ ''/docker-compose.yml'')) (s @ ''/docker-compose.yml'') w1 = Some x"
      "site_files e s w = (Raised x, w1)"
  | (no_nginx) x w1 where
      "makedirs e s True w = (Returned, w1)"
      "open_error e (OpenWrite (s @ ''/docker-compose.yml'')) (s @ ''/docker-compose.yml'') w1 = None"
      "site_files e s w =
         (Raised x, w1\<lparr>files := (files w1)(s @ ''/docker-compose.yml'' \<mapsto> docker_compose_yml)\<rparr>)"
  | (written) w1 where
      "makedirs e s True w = (Returned, w1)"
      "open_error e (OpenWrite (s @ ''/docker-compose.yml'')) (s @ ''/docker-compose.yml'') w1 = None"
      "open_error e (OpenWrite (s @ ''/nginx.conf'')) (s @ ''/nginx.conf'') w1 = None"
      "site_files e s w =
         (Returned, w1\<lparr>files := (files w1)(s @ ''/docker-compose.yml'' \<mapsto> docker_compose_yml,
                                               s @ ''/nginx.conf'' \<mapsto> nginx_conf s)\<rparr>)"
proof -
  obtain r0 w1 where m: "makedirs e s True w = (r0, w1)" by (cases "makedirs e s True w")
  show ?thesis
  proof (cases r0)
    case (Raised x)
    with m have "site_files e s w = (Raised x, w1)" by (simp add: site_files_def)
    with m Raised show ?thesis using no_dir by blast
  next
    case Returned
    note r0 = this
    show ?thesis
    proof (cases "open_error e (OpenWrite (s @ ''/docker-compose.yml'')) (s @ ''/docker-compose.yml'') w1")
      case (Some x)
      then have "site_files e s w = (Raised x, w1)"
        by (simp add: site_files_def m r0 write_file_def)
      with m r0 Some show ?thesis using no_compose by blast
    next
      case None
      let ?w2 = "w1\<lparr>files := (files w1)(s @ ''/docker-compose.yml'' \<mapsto> docker_compose_yml)\<rparr>"
      have s2: "site_files e s w = write_file e (s @ ''/nginx.conf'') (nginx_conf s) ?w2"
        by (simp add: site_files_def m r0 write_file_open [OF None])
      show ?thesis
      proof (cases "open_error e (OpenWrite (s @ ''/nginx.conf'')) (s @ ''/nginx.conf'') ?w2")
        case (Some x)
        then have "site_files e s w = (Raised x, ?w2)"
          by (simp add: s2 write_file_def)
        with m r0 None show ?thesis using no_nginx by blast
      next
        case None2: None
        then have "site_files e s w =
            (Returned, ?w2\<lparr>files := (files ?w2)(s @ ''/nginx.conf'' \<mapsto> nginx_conf s)\<rparr>)"
          by (simp add: s2 write_file_open)
        then have "site_files e s w =
            (Returned, w1\<lparr>files := (files w1)(s @ ''/docker-compose.yml'' \<mapsto> docker_compose_yml,
                                               s @ ''/nginx.conf'' \<mapsto> nginx_conf s)\<rparr>)"
          by simp
        moreover have "open_error e (OpenWrite (s @ ''/nginx.conf'')) (s @ ''/nginx.conf'') w1 = None"
          by (rule open_error_None_dirs [OF None2]) simp
        ultimately show ?thesis using m r0 None written by blast
      qed
    qed
  qed
qed

lemma site_files_trace [simp]: "trace (snd (site_files e s w)) = trace w"
proof (cases rule: site_files_cases [of e s w])
  case (no_dir x w1)
  with makedirs_trace [of e s True w] show ?thesis by simp
next
  case (no_compose x w1)
  with makedirs_trace [of e s True w] show ?thesis by simp
next
  case (no_nginx x w1)
  with makedirs_trace [of e s True w] show ?thesis by simp
next
  case (written w1)
  with makedirs_trace [of e s True w] show ?thesis by simp
qed


lemma site_files_other:
  assumes "p \<noteq> s @ ''/docker-compose.yml''" "p \<noteq> s @ ''/nginx.conf''"
  shows "files (snd (site_files e s w)) p = files w p"
proof (cases rule: site_files_cases [of e s w])
  case (no_dir x w1)
  with makedirs_files [of e s True w] show ?thesis by simp
next
  case (no_compose x w1)
  with makedirs_files [of e s True w] show ?thesis by simp
next
  case (no_nginx x w1)
  with makedirs_files [of e s True w] assms show ?thesis by simp
next
  case (written w1)
  with makedirs_files [of e s True w] assms show ?thesis by simp
qed

lemma site_files_written:
  assumes "fst (site_files e s w) = Returned"
  shows "files (snd (site_files e s w)) (s @ ''/docker-compose.yml'') = Some docker_compose_yml"
    and "files (snd (site_files e s w)) (s @ ''/nginx.conf'') = Some (nginx_conf s)"
  using assms by (cases rule: site_files_cases [of e s w]; simp)+



section \<open>The host entry and the whole of create\<close>

lemma hosts_not_compose: "s @ ''/docker-compose.yml'' \<noteq> p @ ''hosts''"
proof
  assume "s @ ''/docker-compose.yml'' = p @ ''hosts''"
  then have "last (s @ ''/docker-compose.yml'') = last (p @ ''hosts'')" by simp
  then show False by simp
qed

lemma hosts_not_nginx: "s @ ''/nginx.conf'' \<noteq> p @ ''hosts''"
proof
  assume "s @ ''/nginx.conf'' = p @ ''hosts''"
  then have "last (s @ ''/nginx.conf'') = last (p @ ''hosts'')" by simp
  then show False by simp
qed

lemma os_path_join_hosts_ends: "\<exists>d. os_path_join_hosts e data_path = d @ ''hosts''"
  by (simp add: os_path_join_hosts_def)

lemma append_file_cases:
  obtains (refused) x where
      "open_error e (OpenAppend p) p w = Some x" "append_file e p s w = (Raised x, w)"
  | (appended)
      "open_error e (OpenAppend p) p w = None"
      "append_file e p s w =
         (Returned,
          w\<lparr>files := (files w)(p \<mapsto> (case files w p of None \<Rightarrow> s | Some old \<Rightarrow> old @ s))\<rparr>)"
  by (cases "open_error e (OpenAppend p) p w") (simp_all add: append_file_def)

lemma append_file_dirs [simp]: "dirs (snd (append_file e p s w)) = dirs w"
  by (cases rule: append_file_cases [of e p w s]) simp_all

lemma append_file_trace [simp]: "trace (snd (append_file e p s w)) = trace w"
  by (cases rule: append_file_cases [of e p w s]) simp_all

lemma append_file_other: "q \<noteq> p \<Longrightarrow> files (snd (append_file e p s w)) q = files w q"
  by (cases rule: append_file_cases [of e p w s]) simp_all

lemma add_host_entry_windows_cases:
  obtains (not_admin)
      "\<not> is_user_an_admin e"
      "add_host_entry_windows e s w =
         (Raised (SystemExit 1),
          py_print ''Error: The script needs to be run with administrator privileges to modify the hosts entry.'' w)"
  | (no_registry) msg where
      "is_user_an_admin e" "registry_data_base_path e = Inl msg"
      "add_host_entry_windows e s w = (Returned, py_print (''Error: '' @ msg) w)"
  | (appended) data_path w1 where
      "is_user_an_admin e" "registry_data_base_path e = Inr data_path"
      "append_file e (os_path_join_hosts e data_path) (host_entry s) w = (Returned, w1)"
      "add_host_entry_windows e s w = (Returned, py_print ''Hosts entry added successfully.'' w1)"
  | (exit) data_path n where
      "is_user_an_admin e" "registry_data_base_path e = Inr data_path"
      "append_file e (os_path_join_hosts e data_path) (host_entry s) w = (Raised (SystemExit n), w)"
      "add_host_entry_windows e s w = (Raised (SystemExit n), w)"
  | (caught) data_path x where
      "is_user_an_admin e" "registry_data_base_path e = Inr data_path"
      "append_file e (os_path_join_hosts e data_path) (host_entry s) w = (Raised x, w)"
      "\<forall>n. x \<noteq> SystemExit n"
      "add_host_entry_windows e s w = (Returned, py_print (''Error: '' @ exception_text e x) w)"
proof (cases "is_user_an_admin e")
  case False
  then show ?thesis using not_admin by (simp add: add_host_entry_windows_def)
next
  case True
  show ?thesis
  proof (cases "registry_data_base_path e")
    case (Inl msg)
    with True show ?thesis using no_registry by (simp add: add_host_entry_windows_def)
  next
    case (Inr data_path)
    obtain r w1 where a: "append_file e (os_path_join_hosts e data_path) (host_entry s) w = (r, w1)"
      by (cases "append_file e (os_path_join_hosts e data_path) (host_entry s) w")
    show ?thesis
    proof (cases r)
      case Returned
      with True Inr a show ?thesis using appended by (simp add: add_host_entry_windows_def)
    next
      case (Raised x)
      with a have w1: "w1 = w" using append_file_Raised by blast
      show ?thesis
      proof (cases x)
        case (SystemExit n)
        with True Inr a Raised w1 show ?thesis using exit by (simp add: add_host_entry_windows_def)
      qed (use True Inr a Raised w1 caught in \<open>simp_all add: add_host_entry_windows_def\<close>)
    qed
  qed
qed

lemma add_host_entry_windows_dirs [simp]: "dirs (snd (add_host_entry_windows e s w)) = dirs w"
proof (cases rule: add_host_entry_windows_cases [of e s w])
  case (appended data_path w1)
  with append_file_dirs [of e "os_path_join_hosts e data_path" "host_entry s" w] show ?thesis
    by simp
qed simp_all

lemma add_host_entry_windows_other:
  assumes "\<forall>d. p \<noteq> d @ ''hosts''"
  shows "files (snd (add_host_entry_windows e s w)) p = files w p"
proof (cases rule: add_host_entry_windows_cases [of e s w])
  case (appended data_path w1)
  have "p \<noteq> os_path_join_hosts e data_path"
    using assms os_path_join_hosts_ends [of e data_path] by metis
  with append_file_other [of p "os_path_join_hosts e data_path" e "host_entry s" w] appended
  show ?thesis by simp
qed simp_all

lemma add_host_entry_dirs [simp]: "dirs (snd (add_host_entry e s w)) = dirs w"
  by (simp add: add_host_entry_def add_host_entry_unix_def)

lemma add_host_entry_other:
  assumes "\<forall>d. p \<noteq> d @ ''hosts''"
  shows "files (snd (add_host_entry e s w)) p = files w p"
proof -
  have "p \<noteq> ''/etc/hosts''" using assms [rule_format, of "''/etc/''"] by simp
  then show ?thesis
    by (simp add: add_host_entry_def add_host_entry_unix_def append_file_other
          add_host_entry_windows_other [OF assms])
qed

lemma create_cases:
  obtains (no_files) x w1 where
      "site_files e s w = (Raised x, w1)" "create_wordpress_site e s w = (Raised x, w1)"
  | (no_host) x w1 h where
      "site_files e s w = (Returned, w1)" "add_host_entry e s w1 = (Raised x, h)"
      "create_wordpress_site e s w = (Raised x, h)"
  | (created) w1 h where
      "site_files e s w = (Returned, w1)" "add_host_entry e s w1 = (Returned, h)"
      "create_wordpress_site e s w =
         (Returned,
          webbrowser_open (''http://'' @ s)
            (py_print opening_message (py_print wait_message (py_print (created_message s) h))))"
proof -
  obtain r w1 where f: "site_files e s w = (r, w1)" by (cases "site_files e s w")
  show ?thesis
  proof (cases r)
    case (Raised x)
    with f show ?thesis using no_files by (simp add: create_wordpress_site_def)
  next
    case Returned
    obtain r2 h where a: "add_host_entry e s w1 = (r2, h)" by (cases "add_host_entry e s w1")
    then have a': "(if platform_system e = ''Windows'' then add_host_entry_windows e s w1
                    else add_host_entry_unix e s w1) = (r2, h)"
      by (simp add: add_host_entry_def)
    have c: "create_wordpress_site e s w =
        (case (r2, h) of
           (Raised x, w') \<Rightarrow> (Raised x, w')
         | (Returned, w') \<Rightarrow>
             (Returned,
              webbrowser_open (''http://'' @ s)
                (py_print opening_message (py_print wait_message (py_print (created_message s) w')))))"
      unfolding create_wordpress_site_def f Returned wait_message_def opening_message_def
        created_message_def
      by (simp add: a' split del: if_split)
    show ?thesis
    proof (cases r2)
      case (Raised x)
      with f Returned a c show ?thesis using no_host by simp
    next
      case r2: Returned
      with f Returned a c show ?thesis using created by simp
    qed
  qed
qed

lemma create_dirs: "dirs (snd (create_wordpress_site e s w)) = dirs (snd (site_files e s w))"
proof (cases rule: create_cases [of e s w])
  case (no_host x w1 h)
  with add_host_entry_dirs [of e s w1] show ?thesis by simp
next
  case (created w1 h)
  with add_host_entry_dirs [of e s w1] show ?thesis by simp
qed simp

lemma create_files_other:
  assumes "\<forall>d. p \<noteq> d @ ''hosts''"
  shows "files (snd (create_wordpress_site e s w)) p = files (snd (site_files e s w)) p"
proof (cases rule: create_cases [of e s w])
  case (no_host x w1 h)
  with add_host_entry_other [OF assms, of e s w1] show ?thesis by simp
next
  case (created w1 h)
  with add_host_entry_other [OF assms, of e s w1] show ?thesis by simp
qed simp

lemma create_compose_file:
  "files (snd (create_wordpress_site e s w)) (s @ ''/docker-compose.yml'') =
   files (snd (site_files e s w)) (s @ ''/docker-compose.yml'')"
  by (rule create_files_other) (simp add: hosts_not_compose)

lemma create_nginx_file:
  "files (snd (create_wordpress_site e s w)) (s @ ''/nginx.conf'') =
   files (snd (site_files e s w)) (s @ ''/nginx.conf'')"
  by (rule create_files_other) (simp add: hosts_not_nginx)

section \<open>The generated texts\<close>

lemma nginx_conf_server_name: "sublist (''server_name '' @ s @ '';'') (nginx_conf s)"
proof -
  have "nginx_conf s =
     (''server {\<newline>'' @ ''    listen 80;\<newline>'' @ ''    '') @
     (''server_name '' @ s @ '';'') @
     (''\<newline>'' @
      ''    root /var/www/html;\<newline>'' @
      ''    index index.php;\<newline>'' @
      ''\<newline>'' @
      ''    location / {\<newline>'' @
      ''        try_files $uri $uri/ /index.php?$args;\<newline>'' @
      ''    }\<newline>'' @
      ''\<newline>'' @
      ''    location ~ '' @ [CHR 0x5C] @ ''.php$ {\<newline>'' @
      ''        include fastcgi_params;\<newline>'' @
      ''        fastcgi_pass wordpress:9000;\<newline>'' @
      ''        fastcgi_index index.php;\<newline>'' @
      ''        fastcgi_param SCRIPT_FILENAME $document_root$fastcgi_script_name;\<newline>'' @
      ''    }\<newline>'' @
      ''}\<newline>'')"
    by (simp add: nginx_conf_def)
  then show ?thesis
    by (simp only: sublist_appendI)
qed

lemma nginx_conf_php_block: "sublist php_location_block (nginx_conf s)"
proof -
  have "nginx_conf s =
     (''server {\<newline>'' @
      ''    listen 80;\<newline>'' @
      ''    server_name '' @ s @ '';\<newline>'' @
      ''    root /var/www/html;\<newline>'' @
      ''    index index.php;\<newline>'' @
      ''\<newline>'' @
      ''    location / {\<newline>'' @
      ''        try_files $uri $uri/ /index.php?$args;\<newline>'' @
      ''    }\<newline>'' @
      ''\<newline>'') @
     php_location_block @ ''}\<newline>''"
    by (simp add: nginx_conf_def php_location_block_def)
  then show ?thesis
    by (simp only: sublist_appendI)
qed

lemma compose_depends_on:
  "sublist (''  wordpress:\<newline>'' @ ''    depends_on:\<newline>'' @ ''      - db\<newline>'')
     docker_compose_yml"
  unfolding docker_compose_yml_def by code_simp

lemma compose_mounts_nginx_conf:
  "sublist ''      - ./nginx.conf:/etc/nginx/conf.d/default.conf:ro'' docker_compose_yml"
  unfolding docker_compose_yml_def by code_simp

lemma compose_no_server_name: "\<not> sublist ''server_name'' docker_compose_yml"
  unfolding docker_compose_yml_def by code_simp


section \<open>When create writes, and when it does not\<close>

lemma makedirs_empty: "makedirs e [] x w = (Raised FileNotFoundError, w)"
  by (simp add: makedirs_plain mkdir_exist_ok_def os_mkdir_def path_isdir_def)

lemma create_empty_name: "create_wordpress_site e [] w = (Raised FileNotFoundError, w)"
  by (simp add: create_wordpress_site_def site_files_def makedirs_empty)

lemma site_files_after_makedirs:
  assumes "s \<noteq> []" "CHR ''/'' \<notin> set s" "makedirs e s True w = (Returned, wm)" "s \<in> dirs wm"
    "s @ ''/docker-compose.yml'' \<notin> dirs wm" "s @ ''/nginx.conf'' \<notin> dirs wm"
    "fault e (OpenWrite (s @ ''/docker-compose.yml'')) = None"
    "fault e (OpenWrite (s @ ''/nginx.conf'')) = None"
  shows "site_files e s w =
           (Returned, wm\<lparr>files := (files wm)(s @ ''/docker-compose.yml'' \<mapsto> docker_compose_yml,
                                               s @ ''/nginx.conf'' \<mapsto> nginx_conf s)\<rparr>)"
proof -
  have c: "open_error e (OpenWrite (s @ ''/docker-compose.yml'')) (s @ ''/docker-compose.yml'') W = None"
    if "dirs W = dirs wm" for W
    using assms that open_error_in_plain [of s "''docker-compose.yml''" e _ W] by simp
  have n: "open_error e (OpenWrite (s @ ''/nginx.conf'')) (s @ ''/nginx.conf'') W = None"
    if "dirs W = dirs wm" for W
    using assms that open_error_in_plain [of s "''nginx.conf''" e _ W] by simp
  show ?thesis
    by (simp add: site_files_def assms(3) write_file_def c n)
qed

lemma site_files_plain:
  assumes "s \<noteq> []" "CHR ''/'' \<notin> set s" "s \<in> dirs w \<or> s \<notin> dom (files w)"
    "s @ ''/docker-compose.yml'' \<notin> dirs w" "s @ ''/nginx.conf'' \<notin> dirs w"
    "fault e (Mkdir s) = None"
    "fault e (OpenWrite (s @ ''/docker-compose.yml'')) = None"
    "fault e (OpenWrite (s @ ''/nginx.conf'')) = None"
  shows "site_files e s w =
           (Returned, w\<lparr>dirs := insert s (dirs w),
                         files := (files w)(s @ ''/docker-compose.yml'' \<mapsto> docker_compose_yml,
                                            s @ ''/nginx.conf'' \<mapsto> nginx_conf s)\<rparr>)"
proof -
  let ?w1 = "w\<lparr>dirs := insert s (dirs w)\<rparr>"
  have m: "makedirs e s True w = (Returned, ?w1)"
  proof (cases "s \<in> dirs w")
    case True
    then have "?w1 = w" by (simp add: insert_absorb)
    with makedirs_plain_existing(1) [OF assms(1,2) True, of e] show ?thesis by simp
  next
    case False
    with assms show ?thesis by (simp add: makedirs_plain_new)
  qed
  have "s @ ''/docker-compose.yml'' \<noteq> s" "s @ ''/nginx.conf'' \<noteq> s" by simp_all
  with assms site_files_after_makedirs [OF assms(1,2) m] show ?thesis by simp
qed

lemma path_split_etc_hosts: "path_split ''/etc/hosts'' = (''/etc'', ''hosts'')"
  by code_simp

lemma add_host_entry_unix_appends:
  assumes "''/etc'' \<in> dirs w" "''/etc/hosts'' \<notin> dirs w"
    "fault e (OpenAppend ''/etc/hosts'') = None"
  shows "add_host_entry_unix e s w =
           (Returned, w\<lparr>files := (files w)(''/etc/hosts'' \<mapsto>
                                       file_text ''/etc/hosts'' w @ host_entry s)\<rparr>)"
proof -
  have "open_error e (OpenAppend ''/etc/hosts'') ''/etc/hosts'' w = None"
    using assms
    by (simp add: open_error_def parent_error_def path_split_etc_hosts path_isdir_def)
  then show ?thesis
    by (simp add: add_host_entry_unix_def append_file_open file_text_def split: option.splits)
qed

lemma site_files_linux_foo:
  "site_files linux_env ''foo'' linux_world =
     (Returned, linux_world\<lparr>dirs := insert ''foo'' (dirs linux_world),
          files := (files linux_world)(''foo/docker-compose.yml'' \<mapsto> docker_compose_yml,
                                       ''foo/nginx.conf'' \<mapsto> nginx_conf ''foo'')\<rparr>)"
  using site_files_plain [of "''foo''" linux_world linux_env]
  by (simp add: linux_world_def linux_env_def)

lemma site_files_linux_bar:
  "site_files linux_env ''bar'' linux_world =
     (Returned, linux_world\<lparr>dirs := insert ''bar'' (dirs linux_world),
          files := (files linux_world)(''bar/docker-compose.yml'' \<mapsto> docker_compose_yml,
                                       ''bar/nginx.conf'' \<mapsto> nginx_conf ''bar'')\<rparr>)"
  using site_files_plain [of "''bar''" linux_world linux_env]
  by (simp add: linux_world_def linux_env_def)

section \<open>A create that returned\<close>

lemma create_returned:
  assumes "create_wordpress_site e s w = (Returned, w1)"
  obtains w3 h where
    "site_files e s w = (Returned, w3)" "add_host_entry e s w3 = (Returned, h)"
    "w1 = webbrowser_open (''http://'' @ s)
            (py_print opening_message (py_print wait_message (py_print (created_message s) h)))"
  using assms by (cases rule: create_cases [of e s w]) simp_all

lemma site_files_returned:
  assumes "site_files e s w = (Returned, w3)"
  obtains wm where
    "makedirs e s True w = (Returned, wm)"
    "open_error e (OpenWrite (s @ ''/docker-compose.yml'')) (s @ ''/docker-compose.yml'') wm = None"
    "open_error e (OpenWrite (s @ ''/nginx.conf'')) (s @ ''/nginx.conf'') wm = None"
    "w3 = wm\<lparr>files := (files wm)(s @ ''/docker-compose.yml'' \<mapsto> docker_compose_yml,
                                      s @ ''/nginx.conf'' \<mapsto> nginx_conf s)\<rparr>"
  using assms by (cases rule: site_files_cases [of e s w]) simp_all

lemma add_host_entry_again:
  assumes "add_host_entry e s w = (Returned, h)" "dirs w' = dirs w"
  shows "fst (add_host_entry e s w') = Returned"
proof (cases "platform_system e = ''Windows''")
  case False
  with assms(1) have "append_file e ''/etc/hosts'' (host_entry s) w = (Returned, h)"
    by (simp add: add_host_entry_def add_host_entry_unix_def)
  then have "open_error e (OpenAppend ''/etc/hosts'') ''/etc/hosts'' w = None"
    using append_file_Returned by blast
  then have "open_error e (OpenAppend ''/etc/hosts'') ''/etc/hosts'' w' = None"
    using assms(2) by (rule open_error_None_dirs)
  with False show ?thesis
    by (simp add: add_host_entry_def add_host_entry_unix_def append_file_open)
next
  case True
  with assms(1) have r: "add_host_entry_windows e s w = (Returned, h)"
    by (simp add: add_host_entry_def)
  have "fst (add_host_entry_windows e s w') = Returned"
  proof (cases rule: add_host_entry_windows_cases [of e s w'])
    case not_admin
    then have "fst (add_host_entry_windows e s w) = Raised (SystemExit 1)"
      by (simp add: add_host_entry_windows_def)
    with r show ?thesis by simp
  next
    case (exit data_path n)
    let ?p = "os_path_join_hosts e data_path"
    from exit(3) have "open_error e (OpenAppend ?p) ?p w' = Some (SystemExit n)"
      using append_file_Raised by blast
    then have "open_error e (OpenAppend ?p) ?p w = Some (SystemExit n)"
      using assms(2) by (rule open_error_SystemExit_dirs)
    then have "append_file e ?p (host_entry s) w = (Raised (SystemExit n), w)"
      by (simp add: append_file_def)
    with exit(1,2) have "fst (add_host_entry_windows e s w) = Raised (SystemExit n)"
      by (simp add: add_host_entry_windows_def)
    with r show ?thesis by simp
  qed simp_all
  with True show ?thesis by (simp add: add_host_entry_def)
qed

lemma create_again_plain:
  assumes "create_wordpress_site e s w = (Returned, w1)" "s \<noteq> []" "CHR ''/'' \<notin> set s"
  shows "s \<in> dirs w1" and "fst (create_wordpress_site e s w1) = Returned"
    and "dirs (snd (create_wordpress_site e s w1)) = dirs w1"
proof -
  from assms(1) obtain w3 h where
    f: "site_files e s w = (Returned, w3)" and a: "add_host_entry e s w3 = (Returned, h)" and
    w1: "w1 = webbrowser_open (''http://'' @ s)
            (py_print opening_message (py_print wait_message (py_print (created_message s) h)))"
    by (rule create_returned)
  from f obtain wm where
    oc: "open_error e (OpenWrite (s @ ''/docker-compose.yml'')) (s @ ''/docker-compose.yml'') wm = None" and
    on: "open_error e (OpenWrite (s @ ''/nginx.conf'')) (s @ ''/nginx.conf'') wm = None" and
    w3: "w3 = wm\<lparr>files := (files wm)(s @ ''/docker-compose.yml'' \<mapsto> docker_compose_yml,
                                      s @ ''/nginx.conf'' \<mapsto> nginx_conf s)\<rparr>"
    by (rule site_files_returned)
  have d3: "dirs w3 = dirs wm" by (simp add: w3)
  have "dirs h = dirs w3" using add_host_entry_dirs [of e s w3] a by simp
  then have d1: "dirs w1 = dirs wm" by (simp add: w1 d3)
  from oc have c: "s @ ''/docker-compose.yml'' \<notin> dirs wm \<and> s \<in> dirs wm \<and>
                   fault e (OpenWrite (s @ ''/docker-compose.yml'')) = None"
    using open_error_in_plain [of s "''docker-compose.yml''" e _ wm] assms(2,3)
    by (simp split: if_splits)
  from on have n: "s @ ''/nginx.conf'' \<notin> dirs wm \<and>
                   fault e (OpenWrite (s @ ''/nginx.conf'')) = None"
    using open_error_in_plain [of s "''nginx.conf''" e _ wm] assms(2,3)
    by (simp split: if_splits)
  show s: "s \<in> dirs w1" using c d1 by simp
  have "makedirs e s True w1 = (Returned, w1)"
    using assms(2,3) s by (rule makedirs_plain_existing)
  then have "site_files e s w1 =
          (Returned, w1\<lparr>files := (files w1)(s @ ''/docker-compose.yml'' \<mapsto> docker_compose_yml,
                                               s @ ''/nginx.conf'' \<mapsto> nginx_conf s)\<rparr>)"
    using assms(2,3) s c n d1 by (intro site_files_after_makedirs) simp_all
  then obtain u3 where f2: "site_files e s w1 = (Returned, u3)" and u3: "dirs u3 = dirs w1"
    by simp
  have "dirs u3 = dirs w3" by (simp add: u3 d1 d3)
  with a have "fst (add_host_entry e s u3) = Returned" by (rule add_host_entry_again)
  then obtain h2 where a2: "add_host_entry e s u3 = (Returned, h2)"
    by (metis prod.collapse)
  show "fst (create_wordpress_site e s w1) = Returned"
    using f2 a2 by (cases rule: create_cases [of e s w1]) simp_all
  show "dirs (snd (create_wordpress_site e s w1)) = dirs w1"
    by (simp add: create_dirs f2 u3)
qed

section \<open>What create writes\<close>

lemma create_writes:
  assumes "fst (site_files e s w) = Returned"
  shows "files (snd (create_wordpress_site e s w)) (s @ ''/docker-compose.yml'') =
           Some docker_compose_yml"
    and "files (snd (create_wordpress_site e s w)) (s @ ''/nginx.conf'') = Some (nginx_conf s)"
  using site_files_written [OF assms] by (simp_all add: create_compose_file create_nginx_file)

lemma platform_linux_env [simp]: "platform_system linux_env = ''Linux''"
  by (simp add: linux_env_def)

lemma fault_linux_env [simp]: "fault linux_env call = None"
  by (simp add: linux_env_def)

lemma linux_world_dirs [simp]: "dirs linux_world = {''/etc''}"
  by (simp add: linux_world_def)

lemma create_linux_foo:
  "fst (site_files linux_env ''foo'' linux_world) = Returned"
  "fst (create_wordpress_site linux_env ''foo'' linux_world) = Returned"
proof -
  let ?w3 = "linux_world\<lparr>dirs := insert ''foo'' (dirs linux_world),
          files := (files linux_world)(''foo/docker-compose.yml'' \<mapsto> docker_compose_yml,
                                       ''foo/nginx.conf'' \<mapsto> nginx_conf ''foo'')\<rparr>"
  show "fst (site_files linux_env ''foo'' linux_world) = Returned"
    by (simp add: site_files_linux_foo)
  have a: "fst (add_host_entry linux_env ''foo'' ?w3) = Returned"
    unfolding add_host_entry_def
    by (simp add: add_host_entry_unix_appends)
  show "fst (create_wordpress_site linux_env ''foo'' linux_world) = Returned"
  proof (cases rule: create_cases [of linux_env "''foo''" linux_world])
    case (no_files x w1)
    then show ?thesis by (simp add: site_files_linux_foo)
  next
    case (no_host x w1 h)
    from no_host(1) have "w1 = ?w3" by (simp add: site_files_linux_foo)
    with a no_host(2) show ?thesis by simp
  next
    case (created w1 h)
    then show ?thesis by simp
  qed
qed

text \<open>
  Claim C8, as amended. For any two site names for which \<open>create\<close> could make the
  directory and open both files, on any two machines and from any two file systems, the
  contents of \<open>docker-compose.yml\<close> after \<open>create\<close> are the same text: the
  composition is a constant into which the site name is never substituted.
\<close>

theorem compose_file_independent_of_site_name:
  assumes "fst (site_files e1 s1 w1) = Returned" and "fst (site_files e2 s2 w2) = Returned"
  shows "files (snd (create_wordpress_site e1 s1 w1)) (s1 @ ''/docker-compose.yml'') =
         files (snd (create_wordpress_site e2 s2 w2)) (s2 @ ''/docker-compose.yml'') \<and>
         files (snd (create_wordpress_site e1 s1 w1)) (s1 @ ''/docker-compose.yml'') =
           Some docker_compose_yml"
  by (simp add: create_writes(1) [OF assms(1)] create_writes(1) [OF assms(2)])

theorem compose_file_independent_of_site_name_witness:
  "fst (site_files linux_env ''foo'' linux_world) = Returned \<and>
   fst (site_files linux_env ''bar'' linux_world) = Returned \<and>
   files (snd (create_wordpress_site linux_env ''foo'' linux_world)) ''foo/docker-compose.yml'' =
   files (snd (create_wordpress_site linux_env ''bar'' linux_world)) ''bar/docker-compose.yml'' \<and>
   files (snd (create_wordpress_site linux_env ''foo'' linux_world)) ''foo/docker-compose.yml'' =
     Some docker_compose_yml"
proof -
  have f: "fst (site_files linux_env ''foo'' linux_world) = Returned"
    by (simp add: site_files_linux_foo)
  have b: "fst (site_files linux_env ''bar'' linux_world) = Returned"
    by (simp add: site_files_linux_bar)
  show ?thesis
    using f b compose_file_independent_of_site_name [OF f b] by auto
qed

text \<open>
  Claim C8 as it is written fails for the empty site name: \<open>os.makedirs('')\<close> raises,
  \<open>create\<close> writes nothing, and the file of the site \<open>foo\<close> has contents where the
  file of the empty name does not exist.
\<close>

theorem compose_file_empty_name_counterexample:
  "files (snd (create_wordpress_site linux_env '''' linux_world)) ('''' @ ''/docker-compose.yml'') \<noteq>
   files (snd (create_wordpress_site linux_env ''foo'' linux_world)) (''foo'' @ ''/docker-compose.yml'')"
proof -
  have "files (snd (create_wordpress_site linux_env '''' linux_world)) ('''' @ ''/docker-compose.yml'') = None"
    by (simp add: create_empty_name linux_world_def)
  moreover have "files (snd (create_wordpress_site linux_env ''foo'' linux_world))
                   (''foo'' @ ''/docker-compose.yml'') = Some docker_compose_yml"
    by (rule create_writes(1)) (rule create_linux_foo(1))
  ultimately show ?thesis by simp
qed

text \<open>
  Claim C1, as amended. For every site name \<open>s\<close> for which \<open>create\<close> could make the
  directory and open both files, it has written \<open>s/docker-compose.yml\<close>, and the
  contents are the fixed composition text, which has no \<open>server_name\<close> region at all.
  The site name reaches the proxy through \<open>s/nginx.conf\<close>, which holds
  \<open>server_name s;\<close> and which the composition mounts as the proxy's configuration.
\<close>

theorem compose_file_is_fixed_text:
  assumes "fst (site_files e s w) = Returned"
  shows "files (snd (create_wordpress_site e s w)) (s @ ''/docker-compose.yml'') =
           Some docker_compose_yml \<and>
         \<not> sublist ''server_name'' docker_compose_yml \<and>
         sublist ''      - ./nginx.conf:/etc/nginx/conf.d/default.conf:ro'' docker_compose_yml \<and>
         files (snd (create_wordpress_site e s w)) (s @ ''/nginx.conf'') = Some (nginx_conf s) \<and>
         sublist (''server_name '' @ s @ '';'') (nginx_conf s)"
  by (simp only: create_writes [OF assms] compose_no_server_name
        compose_mounts_nginx_conf nginx_conf_server_name simp_thms)

theorem compose_file_is_fixed_text_witness:
  "fst (site_files linux_env ''foo'' linux_world) = Returned \<and>
   files (snd (create_wordpress_site linux_env ''foo'' linux_world)) (''foo'' @ ''/docker-compose.yml'') =
     Some docker_compose_yml \<and>
   \<not> sublist ''server_name'' docker_compose_yml \<and>
   files (snd (create_wordpress_site linux_env ''foo'' linux_world)) (''foo'' @ ''/nginx.conf'') =
     Some (nginx_conf ''foo'') \<and>
   sublist (''server_name '' @ ''foo'' @ '';'') (nginx_conf ''foo'')"
proof -
  have f: "fst (site_files linux_env ''foo'' linux_world) = Returned"
    by (rule create_linux_foo(1))
  from compose_file_is_fixed_text [OF f] f show ?thesis by blast
qed

text \<open>
  Claim C1 as it is written fails for the site \<open>foo\<close>: after \<open>create\<close> on a Linux
  machine with an empty file system, \<open>foo/docker-compose.yml\<close> holds the composition
  text, and \<open>server_name foo;\<close> does not occur in it.
\<close>

theorem compose_file_server_name_counterexample:
  "files (snd (create_wordpress_site linux_env ''foo'' empty_world)) ''foo/docker-compose.yml'' =
     Some docker_compose_yml \<and>
   \<not> sublist ''server_name foo;'' docker_compose_yml"
proof -
  have "site_files linux_env ''foo'' empty_world =
     (Returned, empty_world\<lparr>dirs := insert ''foo'' (dirs empty_world),
          files := (files empty_world)(''foo/docker-compose.yml'' \<mapsto> docker_compose_yml,
                                       ''foo/nginx.conf'' \<mapsto> nginx_conf ''foo'')\<rparr>)"
    using site_files_plain [of "''foo''" empty_world linux_env]
    by (simp add: empty_world_def linux_env_def)
  then have "fst (site_files linux_env ''foo'' empty_world) = Returned" by simp
  then have "files (snd (create_wordpress_site linux_env ''foo'' empty_world))
          (''foo'' @ ''/docker-compose.yml'') = Some docker_compose_yml"
    by (rule create_writes(1))
  moreover have "\<not> sublist ''server_name foo;'' docker_compose_yml"
    unfolding docker_compose_yml_def by code_simp
  ultimately show ?thesis by simp
qed

text \<open>
  Claim C5, as amended. For every site name \<open>s\<close> for which \<open>create\<close> could make the
  directory and open both files, it has written \<open>s/nginx.conf\<close> with
  \<open>server_name s;\<close> and with the PHP location block that passes requests to
  \<open>wordpress:9000\<close>, and \<open>s/docker-compose.yml\<close>, in which the \<open>wordpress\<close>
  service declares \<open>depends_on\<close> the \<open>db\<close> service.
\<close>

theorem create_writes_proxy_and_composition:
  assumes "fst (site_files e s w) = Returned"
  shows "files (snd (create_wordpress_site e s w)) (s @ ''/nginx.conf'') = Some (nginx_conf s) \<and>
         sublist (''server_name '' @ s @ '';'') (nginx_conf s) \<and>
         sublist php_location_block (nginx_conf s) \<and>
         sublist ''fastcgi_pass wordpress:9000;'' php_location_block \<and>
         files (snd (create_wordpress_site e s w)) (s @ ''/docker-compose.yml'') =
           Some docker_compose_yml \<and>
         sublist (''  wordpress:\<newline>'' @ ''    depends_on:\<newline>'' @ ''      - db\<newline>'')
           docker_compose_yml"
proof -
  have "sublist ''fastcgi_pass wordpress:9000;'' php_location_block"
    unfolding php_location_block_def by code_simp
  then show ?thesis
    by (simp only: create_writes [OF assms] nginx_conf_server_name
          nginx_conf_php_block compose_depends_on simp_thms)
qed

theorem create_writes_proxy_and_composition_witness:
  "fst (site_files linux_env ''foo'' linux_world) = Returned \<and>
   files (snd (create_wordpress_site linux_env ''foo'' linux_world)) (''foo'' @ ''/nginx.conf'') =
     Some (nginx_conf ''foo'') \<and>
   sublist (''server_name '' @ ''foo'' @ '';'') (nginx_conf ''foo'') \<and>
   sublist php_location_block (nginx_conf ''foo'') \<and>
   files (snd (create_wordpress_site linux_env ''foo'' linux_world)) (''foo'' @ ''/docker-compose.yml'') =
     Some docker_compose_yml"
proof -
  have f: "fst (site_files linux_env ''foo'' linux_world) = Returned"
    by (rule create_linux_foo(1))
  from create_writes_proxy_and_composition [OF f] f show ?thesis by blast
qed

text \<open>
  Claim C5 as it is written fails for the empty site name: \<open>os.makedirs('')\<close> raises
  \<open>FileNotFoundError\<close>, which leaves \<open>create\<close> before it has written anything.
\<close>

theorem create_empty_name_counterexample:
  "create_wordpress_site linux_env '''' linux_world = (Raised FileNotFoundError, linux_world) \<and>
   files linux_world ('''' @ ''/nginx.conf'') = None \<and>
   files linux_world ('''' @ ''/docker-compose.yml'') = None"
  by (simp add: create_empty_name) (simp add: linux_world_def)

section \<open>Running create again\<close>


lemma stale_world_dirs [simp]: "dirs stale_world = {''/etc'', ''foo''}"
  by (simp add: stale_world_def)






section \<open>The hosts file\<close>

lemma add_host_entry_unix_Returned:
  assumes "add_host_entry_unix e s w = (Returned, w')"
  shows "w' = w\<lparr>files := (files w)(''/etc/hosts'' \<mapsto>
                    file_text ''/etc/hosts'' w @ ''127.0.0.1 '' @ s @ ''\<newline>'')\<rparr>"
proof -
  from assms have "append_file e ''/etc/hosts'' (host_entry s) w = (Returned, w')"
    by (simp add: add_host_entry_unix_def)
  then have "w' = w\<lparr>files := (files w)(''/etc/hosts'' \<mapsto>
      (case files w ''/etc/hosts'' of None \<Rightarrow> host_entry s | Some old \<Rightarrow> old @ host_entry s))\<rparr>"
    using append_file_Returned by blast
  moreover have "(case files w ''/etc/hosts'' of None \<Rightarrow> host_entry s
                   | Some old \<Rightarrow> old @ host_entry s) =
                 file_text ''/etc/hosts'' w @ ''127.0.0.1 '' @ s @ ''\<newline>''"
    by (simp add: file_text_def host_entry_def split: option.splits)
  ultimately show ?thesis by simp
qed

lemma add_host_entry_unix_Raised:
  assumes "add_host_entry_unix e s w = (Raised x, w')"
  shows "w' = w"
  using assms append_file_Raised [of e "''/etc/hosts''" "host_entry s" w x w']
  by (simp add: add_host_entry_unix_def)

lemma hosts_not_site_file:
  "''/etc/hosts'' \<noteq> s @ ''/docker-compose.yml''" "''/etc/hosts'' \<noteq> s @ ''/nginx.conf''"
  using hosts_not_compose [of s "''/etc/''"] hosts_not_nginx [of s "''/etc/''"] by simp_all

lemma create_unix_hosts:
  assumes "platform_system e \<noteq> ''Windows''" "create_wordpress_site e s w = (Returned, w1)"
  shows "files w1 ''/etc/hosts'' =
           Some (file_text ''/etc/hosts'' w @ ''127.0.0.1 '' @ s @ ''\<newline>'')"
proof -
  from assms(2) obtain w3 h where
    f: "site_files e s w = (Returned, w3)" and a: "add_host_entry e s w3 = (Returned, h)" and
    w1: "w1 = webbrowser_open (''http://'' @ s)
            (py_print opening_message (py_print wait_message (py_print (created_message s) h)))"
    by (rule create_returned)
  have "files w3 ''/etc/hosts'' = files w ''/etc/hosts''"
    using site_files_other [of "''/etc/hosts''" s e w] hosts_not_site_file [of s] f by simp
  then have t: "file_text ''/etc/hosts'' w3 = file_text ''/etc/hosts'' w"
    by (simp add: file_text_def)
  from a assms(1) have "add_host_entry_unix e s w3 = (Returned, h)"
    by (simp add: add_host_entry_def)
  then have "h = w3\<lparr>files := (files w3)(''/etc/hosts'' \<mapsto>
                    file_text ''/etc/hosts'' w3 @ ''127.0.0.1 '' @ s @ ''\<newline>'')\<rparr>"
    by (rule add_host_entry_unix_Returned)
  then have "files h ''/etc/hosts'' =
      Some (file_text ''/etc/hosts'' w3 @ ''127.0.0.1 '' @ s @ ''\<newline>'')"
    by simp
  then show ?thesis by (simp add: w1 t)
qed

text \<open>
  Claim C6, as amended. On a platform other than Windows, a host-entry registration that
  returns has appended exactly the line \<open>127.0.0.1 s\<close> with its newline to
  \<open>/etc/hosts\<close> and changed nothing else; one that raises has changed nothing. Nothing
  looks for the line before it is written: when \<open>create\<close> returns twice for the same
  name, the hosts file ends with two such lines after what it held before.
\<close>

theorem host_entry_appended_without_deduplication:
  "(add_host_entry_unix e s w = (Returned, w') \<longrightarrow>
      w' = w\<lparr>files := (files w)(''/etc/hosts'' \<mapsto>
               file_text ''/etc/hosts'' w @ ''127.0.0.1 '' @ s @ ''\<newline>'')\<rparr>) \<and>
   (add_host_entry_unix e s w = (Raised x, w') \<longrightarrow> w' = w) \<and>
   (platform_system e \<noteq> ''Windows'' \<and>
    create_wordpress_site e s w = (Returned, w1) \<and>
    create_wordpress_site e s w1 = (Returned, w2) \<longrightarrow>
      files w2 ''/etc/hosts'' =
        Some (file_text ''/etc/hosts'' w @ (''127.0.0.1 '' @ s @ ''\<newline>'') @
                                           (''127.0.0.1 '' @ s @ ''\<newline>'')))"
proof (intro conjI impI)
  assume "add_host_entry_unix e s w = (Returned, w')"
  then show "w' = w\<lparr>files := (files w)(''/etc/hosts'' \<mapsto>
               file_text ''/etc/hosts'' w @ ''127.0.0.1 '' @ s @ ''\<newline>'')\<rparr>"
    by (rule add_host_entry_unix_Returned)
next
  assume "add_host_entry_unix e s w = (Raised x, w')"
  then show "w' = w" by (rule add_host_entry_unix_Raised)
next
  assume a: "platform_system e \<noteq> ''Windows'' \<and>
    create_wordpress_site e s w = (Returned, w1) \<and>
    create_wordpress_site e s w1 = (Returned, w2)"
  then have 1: "files w1 ''/etc/hosts'' =
           Some (file_text ''/etc/hosts'' w @ ''127.0.0.1 '' @ s @ ''\<newline>'')"
    using create_unix_hosts [of e s w w1] by blast
  from a have 2: "files w2 ''/etc/hosts'' =
           Some (file_text ''/etc/hosts'' w1 @ ''127.0.0.1 '' @ s @ ''\<newline>'')"
    using create_unix_hosts [of e s w1 w2] by blast
  from 1 have "file_text ''/etc/hosts'' w1 =
      file_text ''/etc/hosts'' w @ ''127.0.0.1 '' @ s @ ''\<newline>''"
    by (simp add: file_text_def)
  with 2 show "files w2 ''/etc/hosts'' =
        Some (file_text ''/etc/hosts'' w @ (''127.0.0.1 '' @ s @ ''\<newline>'') @
                                           (''127.0.0.1 '' @ s @ ''\<newline>''))"
    by simp
qed

theorem host_entry_appended_without_deduplication_witness:
  "platform_system linux_env \<noteq> ''Windows'' \<and>
   add_host_entry_unix linux_env ''foo'' linux_world =
     (Returned, linux_world\<lparr>files := (files linux_world)(''/etc/hosts'' \<mapsto>
         ''127.0.0.1 localhost\<newline>'' @ ''127.0.0.1 foo\<newline>'')\<rparr>) \<and>
   fst (create_wordpress_site linux_env ''foo'' linux_world) = Returned \<and>
   fst (create_wordpress_site linux_env ''foo''
          (snd (create_wordpress_site linux_env ''foo'' linux_world))) = Returned \<and>
   files (snd (create_wordpress_site linux_env ''foo''
          (snd (create_wordpress_site linux_env ''foo'' linux_world)))) ''/etc/hosts'' =
     Some (''127.0.0.1 localhost\<newline>'' @ ''127.0.0.1 foo\<newline>'' @ ''127.0.0.1 foo\<newline>'')"
proof -
  let ?w1 = "snd (create_wordpress_site linux_env ''foo'' linux_world)"
  let ?w2 = "snd (create_wordpress_site linux_env ''foo'' ?w1)"
  let ?h = "linux_world\<lparr>files := (files linux_world)(''/etc/hosts'' \<mapsto>
         file_text ''/etc/hosts'' linux_world @ host_entry ''foo'')\<rparr>"
  have t: "file_text ''/etc/hosts'' linux_world = ''127.0.0.1 localhost\<newline>''"
    by (simp add: file_text_def linux_world_def)
  have a: "add_host_entry_unix linux_env ''foo'' linux_world = (Returned, ?h)"
    by (rule add_host_entry_unix_appends) simp_all
  have c1: "create_wordpress_site linux_env ''foo'' linux_world = (Returned, ?w1)"
    using create_linux_foo(2) by (simp add: prod_eq_iff)
  have r2: "fst (create_wordpress_site linux_env ''foo'' ?w1) = Returned"
    by (rule create_again_plain(2) [OF c1]) simp_all
  then have c2: "create_wordpress_site linux_env ''foo'' ?w1 = (Returned, ?w2)"
    by (simp add: prod_eq_iff)
  have p: "platform_system linux_env \<noteq> ''Windows''" by simp
  from host_entry_appended_without_deduplication
         [of linux_env "''foo''" linux_world ?h FileNotFoundError ?w1 ?w2] a c1 c2 p
  have "files ?w2 ''/etc/hosts'' =
        Some (file_text ''/etc/hosts'' linux_world @ (''127.0.0.1 '' @ ''foo'' @ ''\<newline>'') @
                                           (''127.0.0.1 '' @ ''foo'' @ ''\<newline>''))"
    by blast
  with a create_linux_foo(2) r2 p show ?thesis
    by (simp add: t host_entry_def)
qed

text \<open>
  Claim C6 as it is written fails for a user who may not write \<open>/etc/hosts\<close>: on a
  Linux machine where opening the hosts file for appending is refused, the registration
  raises \<open>PermissionError\<close> and the hosts file gains no line.
\<close>

theorem host_entry_permission_counterexample:
  "platform_system unprivileged_env \<noteq> ''Windows'' \<and>
   add_host_entry_unix unprivileged_env ''foo'' linux_world =
     (Raised PermissionError, linux_world)"
  by (simp add: add_host_entry_unix_def append_file_def open_error_def parent_error_def
        path_split_etc_hosts path_isdir_def unprivileged_env_def linux_env_def)

section \<open>Failures of the child processes\<close>

lemma subprocess_run_missing_cwd:
  "d \<notin> dirs w \<Longrightarrow> subprocess_run e args (Some d) check w = Inl FileNotFoundError"
  by (simp add: subprocess_run_def)

lemma subprocess_run_exited:
  "proc e args None = Exited rc \<Longrightarrow>
   subprocess_run e args None True w = (if rc \<noteq> 0 then Inl (CalledProcessError rc) else Inr rc)"
  by (simp add: subprocess_run_def)

lemma check_dependencies_docker_fails:
  "proc e [''docker'', ''--version''] None = Exited rc \<Longrightarrow> rc \<noteq> 0 \<Longrightarrow>
   check_dependencies e w =
     (Raised (SystemExit 1),
      py_print ''Docker is not installed. Please install Docker before running this script.'' w)"
  by (simp add: check_dependencies_def subprocess_run_exited)

lemma check_dependencies_compose_fails:
  "proc e [''docker'', ''--version''] None = Exited 0 \<Longrightarrow>
   proc e [''docker-compose'', ''--version''] None = Exited rc \<Longrightarrow> rc \<noteq> 0 \<Longrightarrow>
   check_dependencies e w =
     (Raised (SystemExit 1),
      py_print ''Docker Compose is not installed. Please install Docker Compose before running this script.'' w)"
  by (simp add: check_dependencies_def subprocess_run_exited)

lemma check_dependencies_succeeds:
  "proc e [''docker'', ''--version''] None = Exited 0 \<Longrightarrow>
   proc e [''docker-compose'', ''--version''] None = Exited 0 \<Longrightarrow>
   check_dependencies e w = (Returned, w)"
  by (simp add: check_dependencies_def subprocess_run_exited)

lemma check_dependencies_not_invocable:
  "proc e [''docker'', ''--version''] None = NotInvocable \<Longrightarrow>
   check_dependencies e w = (Raised FileNotFoundError, w)"
  by (simp add: check_dependencies_def subprocess_run_def)

text \<open>
  Claim C3 does not hold of the code where an executable is missing. On a machine with
  neither \<open>docker\<close> nor \<open>docker-compose\<close> installed, starting the version query
  raises \<open>FileNotFoundError\<close>, which the handler for \<open>CalledProcessError\<close> does not
  catch: nothing is printed, and the exception ends the process with status 1.
\<close>

theorem check_dependencies_missing_executable:
  "check_dependencies bare_env empty_world = (Raised FileNotFoundError, empty_world) \<and>
   trace (snd (check_dependencies bare_env empty_world)) = [] \<and>
   exit_status (fst (check_dependencies bare_env empty_world)) = 1"
proof -
  have "check_dependencies bare_env empty_world = (Raised FileNotFoundError, empty_world)"
    by (simp add: check_dependencies_def subprocess_run_def bare_env_def linux_env_def)
  then show ?thesis by (simp add: empty_world_def)
qed

lemma delete_absent_site:
  "s \<notin> dirs w \<Longrightarrow> delete_wordpress_site e s w = (Raised FileNotFoundError, w)"
  by (simp add: delete_wordpress_site_def subprocess_run_missing_cwd)

text \<open>
  Claim C2 does not hold of the code. For the site \<open>ghost\<close>, whose directory does not
  exist, \<open>delete\<close> starts \<open>docker-compose down\<close> in that directory before it
  enters the \<open>try\<close> block, so \<open>FileNotFoundError\<close> leaves the function and the
  absence message is never printed.
\<close>

theorem delete_absent_site_raises:
  "''ghost'' \<notin> dirs empty_world \<and>
   delete_wordpress_site linux_env ''ghost'' empty_world = (Raised FileNotFoundError, empty_world) \<and>
   trace (snd (delete_wordpress_site linux_env ''ghost'' empty_world)) = []"
  by (simp add: delete_wordpress_site_def subprocess_run_def empty_world_def)

section \<open>enable and disable\<close>

lemma subprocess_run_unchecked:
  "d \<in> dirs w \<Longrightarrow> proc e args (Some d) = Exited rc \<Longrightarrow>
   subprocess_run e args (Some d) False w = Inr rc"
  by (simp add: subprocess_run_def)

text \<open>
  Claim C9. For every site name whose directory does not exist, \<open>enable\<close> and
  \<open>disable\<close> end with the uncaught \<open>FileNotFoundError\<close> of the subprocess call,
  on every machine, and leave the world as it was: no success message and no other
  message is printed.
\<close>

theorem enable_disable_absent_site_raise:
  assumes "s \<notin> dirs w"
  shows "enable_wordpress_site e s w = (Raised FileNotFoundError, w) \<and>
         disable_wordpress_site e s w = (Raised FileNotFoundError, w)"
  using assms
  by (simp add: enable_wordpress_site_def disable_wordpress_site_def subprocess_run_missing_cwd)

theorem enable_disable_absent_site_raise_witness:
  "''ghost'' \<notin> dirs foo_world \<and>
   enable_wordpress_site linux_env ''ghost'' foo_world = (Raised FileNotFoundError, foo_world) \<and>
   disable_wordpress_site linux_env ''ghost'' foo_world = (Raised FileNotFoundError, foo_world)"
proof -
  have h: "''ghost'' \<notin> dirs foo_world" by (simp add: foo_world_def)
  show ?thesis using h enable_disable_absent_site_raise [OF h, of linux_env] by simp
qed

text \<open>
  Claim C4, as amended. For every site name whose directory exists, whenever the
  \<open>docker-compose\<close> process can be started, \<open>enable\<close> and \<open>disable\<close> return
  normally and print their success message whatever status \<open>rc\<close> the process ends
  with: the status is never inspected.
\<close>

theorem enable_disable_ignore_exit_status:
  assumes "s \<in> dirs w"
  shows "(proc e [''docker-compose'', ''up'', ''-d''] (Some s) = Exited rc \<longrightarrow>
            enable_wordpress_site e s w =
              (Returned, py_print (''WordPress site '' @ [CHR 0x27] @ s @ [CHR 0x27] @
                                   '' is now enabled and running!'') w)) \<and>
         (proc e [''docker-compose'', ''down''] (Some s) = Exited rc' \<longrightarrow>
            disable_wordpress_site e s w =
              (Returned, py_print (''WordPress site '' @ [CHR 0x27] @ s @ [CHR 0x27] @
                                   '' is now disabled and stopped!'') w))"
  using assms
  by (simp add: enable_wordpress_site_def disable_wordpress_site_def subprocess_run_unchecked)

text \<open>
  The example of the claim: the directory \<open>foo\<close> exists, \<open>foo/docker-compose.yml\<close>
  does not, and the orchestrator ends with status 1.
\<close>

theorem enable_disable_ignore_exit_status_witness:
  "''foo'' \<in> dirs foo_world \<and>
   files foo_world ''foo/docker-compose.yml'' = None \<and>
   proc failing_env [''docker-compose'', ''up'', ''-d''] (Some ''foo'') = Exited 1 \<and>
   enable_wordpress_site failing_env ''foo'' foo_world =
     (Returned, py_print ''WordPress site 'foo' is now enabled and running!'' foo_world) \<and>
   proc failing_env [''docker-compose'', ''down''] (Some ''foo'') = Exited 1 \<and>
   disable_wordpress_site failing_env ''foo'' foo_world =
     (Returned, py_print ''WordPress site 'foo' is now disabled and stopped!'' foo_world)"
proof -
  have h: "''foo'' \<in> dirs foo_world" by (simp add: foo_world_def)
  have u: "proc failing_env [''docker-compose'', ''up'', ''-d''] (Some ''foo'') = Exited 1"
    by (simp add: failing_env_def linux_env_def)
  have d: "proc failing_env [''docker-compose'', ''down''] (Some ''foo'') = Exited 1"
    by (simp add: failing_env_def linux_env_def)
  have f: "files foo_world ''foo/docker-compose.yml'' = None" by (simp add: foo_world_def)
  show ?thesis
    using h u d f enable_disable_ignore_exit_status [OF h, of failing_env 1 1] by simp
qed

text \<open>
  Claim C4 as it is written fails where the directory exists and the orchestrator is
  not installed: \<open>enable foo\<close> ends with an uncaught \<open>FileNotFoundError\<close> and
  prints nothing.
\<close>

theorem enable_without_orchestrator_counterexample:
  "''foo'' \<in> dirs foo_world \<and>
   enable_wordpress_site bare_env ''foo'' foo_world = (Raised FileNotFoundError, foo_world) \<and>
   trace (snd (enable_wordpress_site bare_env ''foo'' foo_world)) = []"
  by (simp add: enable_wordpress_site_def subprocess_run_def bare_env_def linux_env_def
        foo_world_def)


section \<open>The create action\<close>

lemma check_dependencies_Returned: "check_dependencies e w = (Returned, w1) \<Longrightarrow> w1 = w"
  by (simp add: check_dependencies_def split: sum.splits py_exception.splits)

lemma add_host_entry_windows_trace:
  assumes "add_host_entry_windows e s w = (Returned, w')"
  shows "\<exists>m. trace w' = trace w @ [Print m] \<and>
             (m = ''Hosts entry added successfully.'' \<or> (\<exists>msg. m = ''Error: '' @ msg))"
proof (cases rule: add_host_entry_windows_cases [of e s w])
  case not_admin
  with assms show ?thesis by simp
next
  case (no_registry msg)
  with assms have "trace w' = trace w @ [Print (''Error: '' @ msg)]" by auto
  then show ?thesis by blast
next
  case (appended data_path w1)
  from appended(3) have "trace w1 = trace w"
    using append_file_trace [of e "os_path_join_hosts e data_path" "host_entry s" w] by simp
  with appended(4) assms
  have "trace w' = trace w @ [Print ''Hosts entry added successfully.'']" by auto
  then show ?thesis by blast
next
  case (exit data_path n)
  with assms show ?thesis by simp
next
  case (caught data_path x)
  with assms have "trace w' = trace w @ [Print (''Error: '' @ exception_text e x)]" by auto
  then show ?thesis by blast
qed

lemma add_host_entry_unix_trace:
  "add_host_entry_unix e s w = (r, w') \<Longrightarrow> trace w' = trace w"
  using append_file_trace [of e "''/etc/hosts''" "host_entry s" w]
  by (simp add: add_host_entry_unix_def)

lemma host_report_not_browser_message:
  assumes "m = ''Hosts entry added successfully.'' \<or> (\<exists>msg. m = ''Error: '' @ msg)"
  shows "m \<noteq> wait_message \<and> m \<noteq> opening_message"
  using assms by (auto simp: wait_message_def opening_message_def)

lemma create_trace:
  assumes "create_wordpress_site e s w = (Returned, w')"
  shows "\<exists>pre. trace w' = trace w @ pre @
            [Print (created_message s), Print wait_message, Print opening_message,
             BrowserOpen (''http://'' @ s)] \<and>
           Print wait_message \<notin> set pre \<and> Print opening_message \<notin> set pre \<and>
           BrowserOpen (''http://'' @ s) \<notin> set pre"
proof -
  from assms obtain w3 h where
    f: "site_files e s w = (Returned, w3)" and h: "add_host_entry e s w3 = (Returned, h)" and
    w': "w' = webbrowser_open (''http://'' @ s)
            (py_print opening_message (py_print wait_message (py_print (created_message s) h)))"
    by (rule create_returned)
  have w3: "trace w3 = trace w" using site_files_trace [of e s w] f by simp
  have t: "trace w' = trace h @ [Print (created_message s), Print wait_message, Print opening_message,
             BrowserOpen (''http://'' @ s)]"
    by (simp add: w')
  show ?thesis
  proof (cases "platform_system e = ''Windows''")
    case True
    with h have "add_host_entry_windows e s w3 = (Returned, h)" by (simp add: add_host_entry_def)
    from add_host_entry_windows_trace [OF this] obtain m where
      m: "trace h = trace w @ [Print m]"
         "m = ''Hosts entry added successfully.'' \<or> (\<exists>msg. m = ''Error: '' @ msg)"
      by (auto simp: w3)
    from host_report_not_browser_message [OF m(2)]
    have "Print wait_message \<notin> set [Print m]" "Print opening_message \<notin> set [Print m]"
         "BrowserOpen (''http://'' @ s) \<notin> set [Print m]"
      by auto
    moreover have "trace w' = trace w @ [Print m] @
            [Print (created_message s), Print wait_message, Print opening_message,
             BrowserOpen (''http://'' @ s)]"
      using m(1) t by simp
    ultimately show ?thesis by blast
  next
    case False
    with h have "add_host_entry_unix e s w3 = (Returned, h)" by (simp add: add_host_entry_def)
    from add_host_entry_unix_trace [OF this] have "trace h = trace w"
      by (simp add: w3)
    with t have "trace w' = trace w @ [] @
            [Print (created_message s), Print wait_message, Print opening_message,
             BrowserOpen (''http://'' @ s)]"
      by simp
    moreover have "Print wait_message \<notin> set []" "Print opening_message \<notin> set []"
      "BrowserOpen (''http://'' @ s) \<notin> set []" by simp_all
    ultimately show ?thesis by blast
  qed
qed

lemma main_create_Returned:
  assumes "main e s ''create'' w = (Returned, w')"
  shows "\<exists>w2. create_wordpress_site e s w = (Returned, w2) \<and>
              w' = webbrowser_open (''http://'' @ s)
                     (py_print opening_message (py_print wait_message w2))"
proof -
  have m: "main e s ''create'' w =
        (case check_dependencies e w of
           (Raised x, w1) \<Rightarrow> (Raised x, w1)
         | (Returned, w1) \<Rightarrow>
             (case create_wordpress_site e s w1 of
                (Raised x, w2) \<Rightarrow> (Raised x, w2)
              | (Returned, w2) \<Rightarrow>
                  (Returned,
                   webbrowser_open (''http://'' @ s)
                     (py_print opening_message (py_print wait_message w2)))))"
    unfolding main_def wait_message_def opening_message_def by simp
  obtain r1 w1 where c: "check_dependencies e w = (r1, w1)"
    by (cases "check_dependencies e w")
  obtain r2 w2 where k: "create_wordpress_site e s w1 = (r2, w2)"
    by (cases "create_wordpress_site e s w1")
  from assms have r1: "r1 = Returned"
    unfolding m c by (cases r1) simp_all
  with c check_dependencies_Returned have w1: "w1 = w" by blast
  from assms have "r2 = Returned \<and> w' = webbrowser_open (''http://'' @ s)
                     (py_print opening_message (py_print wait_message w2))"
    unfolding m c r1 by (cases r2) (simp_all add: k)
  with k w1 show ?thesis by blast
qed

text \<open>
  Claim C10. When the \<open>create\<close> action ends normally for a site \<open>s\<close>, the run has
  printed the creation message and then, twice in a row, the wait message, the opening
  message and the opening of \<open>http://s\<close> in the browser: first from
  \<open>create_wordpress_site\<close>, then from the dispatch. What the run printed before
  (\<open>pre\<close>, the report of the Windows host registration, empty elsewhere) holds none
  of these three events, so each happens exactly twice.
\<close>

theorem create_opens_browser_twice:
  assumes "main e s ''create'' w = (Returned, w')"
  shows "\<exists>pre. trace w' = trace w @ pre @
            [Print (created_message s),
             Print wait_message, Print opening_message, BrowserOpen (''http://'' @ s),
             Print wait_message, Print opening_message, BrowserOpen (''http://'' @ s)] \<and>
           Print wait_message \<notin> set pre \<and> Print opening_message \<notin> set pre \<and>
           BrowserOpen (''http://'' @ s) \<notin> set pre"
proof -
  from main_create_Returned [OF assms] obtain w2 where
    k: "create_wordpress_site e s w = (Returned, w2)" and
    w': "w' = webbrowser_open (''http://'' @ s) (py_print opening_message (py_print wait_message w2))"
    by blast
  from create_trace [OF k] obtain pre where
    p: "trace w2 = trace w @ pre @
            [Print (created_message s), Print wait_message, Print opening_message,
             BrowserOpen (''http://'' @ s)]"
       "Print wait_message \<notin> set pre" "Print opening_message \<notin> set pre"
       "BrowserOpen (''http://'' @ s) \<notin> set pre"
    by blast
  have "trace w' = trace w @ pre @
            [Print (created_message s),
             Print wait_message, Print opening_message, BrowserOpen (''http://'' @ s),
             Print wait_message, Print opening_message, BrowserOpen (''http://'' @ s)]"
    using p(1) by (simp add: w')
  with p(2-4) show ?thesis by blast
qed

lemma main_create_linux_foo:
  "fst (main linux_env ''foo'' ''create'' linux_world) = Returned"
proof -
  have c: "check_dependencies linux_env linux_world = (Returned, linux_world)"
    by (rule check_dependencies_succeeds) (simp_all add: linux_env_def)
  obtain w2 where k: "create_wordpress_site linux_env ''foo'' linux_world = (Returned, w2)"
    using create_linux_foo(2) by (metis prod.collapse)
  show ?thesis
    by (simp add: main_def c k)
qed

theorem create_opens_browser_twice_witness:
  "fst (main linux_env ''foo'' ''create'' linux_world) = Returned \<and>
   (\<exists>pre. trace (snd (main linux_env ''foo'' ''create'' linux_world)) = trace linux_world @ pre @
            [Print ''WordPress site 'foo' with a LEMP stack created successfully!'',
             Print wait_message, Print opening_message, BrowserOpen ''http://foo'',
             Print wait_message, Print opening_message, BrowserOpen ''http://foo''] \<and>
           Print wait_message \<notin> set pre \<and> Print opening_message \<notin> set pre \<and>
           BrowserOpen ''http://foo'' \<notin> set pre)"
proof -
  have r: "fst (main linux_env ''foo'' ''create'' linux_world) = Returned"
    by (rule main_create_linux_foo)
  then have h: "main linux_env ''foo'' ''create'' linux_world =
                  (Returned, snd (main linux_env ''foo'' ''create'' linux_world))"
    by (metis prod.collapse)
  have c: "created_message ''foo'' = ''WordPress site 'foo' with a LEMP stack created successfully!''"
    by (simp add: created_message_def)
  show ?thesis
    using r create_opens_browser_twice [OF h] unfolding c by simp
qed

end
